theory Spec2Isabelle
  imports Main "HOL-Library.Sublist"
begin

section \<open>Python values, exceptions and the operations the program applies to them\<close>

text \<open>
  A Python \<^verbatim>\<open>str\<close> is a sequence of Unicode code points; a code point is a natural
  number. \<open>py\<close> turns an ASCII literal of the source into such a sequence.
\<close>

type_synonym pystr = "nat list"

definition py :: "string \<Rightarrow> pystr" where
  "py s = map of_char s"

text \<open>
  The values that flow through \<^verbatim>\<open>lookup_metadata\<close>: what the provider libraries hand
  back (parsed JSON or XML: \<^verbatim>\<open>None\<close>, booleans, integers, strings, lists, dictionaries
  with string keys) and what the function builds from them. A dictionary is an
  association list in insertion order; a lookup takes the first binding of a key.
\<close>

datatype pyval =
    PNone
  | PBool bool
  | PInt int
  | PStr pystr
  | PList "pyval list"
  | PDict "(pystr \<times> pyval) list"

text \<open>
  The exceptions of the run. \<open>LibraryError\<close> stands for any other subclass of
  \<^verbatim>\<open>Exception\<close> that a provider library raises (a web service error, a connection
  error, a JSON decoding error), named by its class. \<open>KeyboardInterrupt\<close> and
  \<open>SystemExit\<close> derive from \<^verbatim>\<open>BaseException\<close> only: they are the interpreter's
  cancellation signals, and \<^verbatim>\<open>except Exception\<close> does not catch them.
\<close>

datatype exn =
    KeyError
  | IndexError
  | TypeError
  | AttributeError
  | LibraryError pystr
  | KeyboardInterrupt
  | SystemExit

fun is_Exception :: "exn \<Rightarrow> bool" where
  "is_Exception KeyboardInterrupt = False"
| "is_Exception SystemExit = False"
| "is_Exception _ = True"

definition bind_exn :: "exn + 'a \<Rightarrow> ('a \<Rightarrow> exn + 'b) \<Rightarrow> exn + 'b" where
  "bind_exn r f = (case r of Inl e \<Rightarrow> Inl e | Inr v \<Rightarrow> f v)"

text \<open>Truth value of an object, as \<^verbatim>\<open>if x:\<close> tests it.\<close>

fun truthy :: "pyval \<Rightarrow> bool" where
  "truthy PNone = False"
| "truthy (PBool b) = b"
| "truthy (PInt i) = (i \<noteq> 0)"
| "truthy (PStr s) = (s \<noteq> [])"
| "truthy (PList xs) = (xs \<noteq> [])"
| "truthy (PDict d) = (d \<noteq> [])"

text \<open>\<^verbatim>\<open>obj.get(key, default)\<close>: only a dictionary has the method.\<close>

fun py_get :: "pyval \<Rightarrow> pystr \<Rightarrow> pyval \<Rightarrow> exn + pyval" where
  "py_get (PDict d) k dflt = Inr (case map_of d k of Some v \<Rightarrow> v | None \<Rightarrow> dflt)"
| "py_get _ k dflt = Inl AttributeError"

text \<open>\<^verbatim>\<open>obj['key']\<close> with a string key.\<close>

fun py_getitem_str :: "pyval \<Rightarrow> pystr \<Rightarrow> exn + pyval" where
  "py_getitem_str (PDict d) k = (case map_of d k of Some v \<Rightarrow> Inr v | None \<Rightarrow> Inl KeyError)"
| "py_getitem_str _ k = Inl TypeError"

text \<open>
  \<^verbatim>\<open>obj[0]\<close>: the first element of a list, the first character of a string, a missing
  key of a dictionary (its keys are strings), a type error elsewhere.
\<close>

fun py_getitem_0 :: "pyval \<Rightarrow> exn + pyval" where
  "py_getitem_0 (PList []) = Inl IndexError"
| "py_getitem_0 (PList (x # xs)) = Inr x"
| "py_getitem_0 (PStr []) = Inl IndexError"
| "py_getitem_0 (PStr (c # cs)) = Inr (PStr [c])"
| "py_getitem_0 (PDict d) = Inl KeyError"
| "py_getitem_0 _ = Inl TypeError"

section \<open>The remote services\<close>

text \<open>
  Every remote call is recorded in the history of the run. A service answers a call
  from the history so far and its argument: it raises or returns a value.
  \<open>search_releases\<close> is \<^verbatim>\<open>musicbrainzngs.search_releases(query=query, limit=1)\<close>;
  \<open>coverart_get_json\<close> is the request to the cover art archive for a release identifier
  followed by \<^verbatim>\<open>.json()\<close> on the response (two steps of the same \<^verbatim>\<open>try\<close> with nothing
  between them). A Spotify client is its \<^verbatim>\<open>search(q=query, type='album', limit=1)\<close>.
\<close>

datatype call =
    SearchReleases pystr
  | CoverArtGet pyval
  | SpotifySearch pystr

record services =
  search_releases :: "call list \<Rightarrow> pystr \<Rightarrow> exn + pyval"
  coverart_get_json :: "call list \<Rightarrow> pyval \<Rightarrow> exn + pyval"

type_synonym spotify_client = "call list \<Rightarrow> pystr \<Rightarrow> exn + pyval"

section \<open>\<^verbatim>\<open>lookup_metadata\<close>\<close>

subsection \<open>The MusicBrainz block\<close>

text \<open>
  Lines 41 to 46: the release list of the response and, when it is truthy, the identifier,
  artist and title of its first release.
\<close>

definition mb_release :: "pyval \<Rightarrow> exn + (pyval \<times> pyval \<times> pyval) option" where
  "mb_release mb =
     bind_exn (py_get mb (py ''release-list'') (PList [])) (\<lambda>release_list.
       if truthy release_list then
         bind_exn (py_getitem_0 release_list) (\<lambda>r.
         bind_exn (py_get r (py ''id'') PNone) (\<lambda>mbid.
         bind_exn (py_getitem_str r (py ''artist-credit'')) (\<lambda>credit.
         bind_exn (py_getitem_0 credit) (\<lambda>credit0.
         bind_exn (py_getitem_str credit0 (py ''artist'')) (\<lambda>credit_artist.
         bind_exn (py_getitem_str credit_artist (py ''name'')) (\<lambda>artist.
         bind_exn (py_get r (py ''title'') PNone) (\<lambda>title.
           Inr (Some (mbid, artist, title)))))))))
       else Inr None)"

text \<open>Lines 47, 50 and 51: the cover URL out of the cover art archive's answer.\<close>

definition mb_cover_url :: "pyval \<Rightarrow> exn + pyval" where
  "mb_cover_url art_json =
     bind_exn (py_get art_json (py ''images'') PNone) (\<lambda>images.
       if truthy images then
         bind_exn (py_getitem_str art_json (py ''images'')) (\<lambda>imgs.
         bind_exn (py_getitem_0 imgs) (\<lambda>img.
           py_get img (py ''image'') PNone))
       else Inr PNone)"

text \<open>Lines 52 to 58: the dictionary appended to the matches.\<close>

definition mb_match :: "pyval \<Rightarrow> pyval \<Rightarrow> pyval \<Rightarrow> pyval \<Rightarrow> pyval" where
  "mb_match artist title mbid cover_url =
     PDict [(py ''source'', PStr (py ''MusicBrainz'')),
            (py ''artist'', artist),
            (py ''title'', title),
            (py ''mbid'', mbid),
            (py ''cover_art_url'', cover_url)]"

text \<open>
  The body of the \<^verbatim>\<open>try\<close>, lines 40 to 58: the match to append if any, or the exception
  raised, and the history extended by the calls made.
\<close>

definition musicbrainz_lookup ::
  "services \<Rightarrow> pystr \<Rightarrow> call list \<Rightarrow> (exn + pyval option) \<times> call list" where
  "musicbrainz_lookup svc query tr =
     (let tr1 = tr @ [SearchReleases query] in
      case search_releases svc tr query of
        Inl e \<Rightarrow> (Inl e, tr1)
      | Inr mb \<Rightarrow>
          (case mb_release mb of
             Inl e \<Rightarrow> (Inl e, tr1)
           | Inr None \<Rightarrow> (Inr None, tr1)
           | Inr (Some (mbid, artist, title)) \<Rightarrow>
               (let tr2 = tr1 @ [CoverArtGet mbid] in
                case coverart_get_json svc tr1 mbid of
                  Inl e \<Rightarrow> (Inl e, tr2)
                | Inr art_json \<Rightarrow>
                    (case mb_cover_url art_json of
                       Inl e \<Rightarrow> (Inl e, tr2)
                     | Inr cover_url \<Rightarrow>
                         (Inr (Some (mb_match artist title mbid cover_url)), tr2)))))"

text \<open>
  \<^verbatim>\<open>try: ... except Exception: pass\<close> around a body that ends by appending its match
  to the matches: an instance of \<^verbatim>\<open>Exception\<close> leaves the matches as they are, any
  other exception propagates.
\<close>

definition except_Exception_pass ::
  "pyval list \<Rightarrow> (exn + pyval option) \<times> call list \<Rightarrow> (exn + pyval list) \<times> call list" where
  "except_Exception_pass matches body =
     (case body of
        (Inr (Some m), tr) \<Rightarrow> (Inr (matches @ [m]), tr)
      | (Inr None, tr) \<Rightarrow> (Inr matches, tr)
      | (Inl e, tr) \<Rightarrow> if is_Exception e then (Inr matches, tr) else (Inl e, tr))"

definition musicbrainz_block ::
  "services \<Rightarrow> pystr \<Rightarrow> pyval list \<Rightarrow> call list \<Rightarrow> (exn + pyval list) \<times> call list" where
  "musicbrainz_block svc query matches tr =
     except_Exception_pass matches (musicbrainz_lookup svc query tr)"

subsection \<open>The Spotify block\<close>

definition sp_match :: "pyval \<Rightarrow> pyval \<Rightarrow> pyval \<Rightarrow> pyval \<Rightarrow> pyval" where
  "sp_match artist title spotify_id cover_url =
     PDict [(py ''source'', PStr (py ''Spotify'')),
            (py ''artist'', artist),
            (py ''title'', title),
            (py ''spotify_id'', spotify_id),
            (py ''cover_art_url'', cover_url)]"

text \<open>Lines 65 to 78: the match out of the search response, if its item list is truthy.\<close>

definition sp_album :: "pyval \<Rightarrow> exn + pyval option" where
  "sp_album sp_res =
     bind_exn (py_get sp_res (py ''albums'') (PDict [])) (\<lambda>albums.
     bind_exn (py_get albums (py ''items'') (PList [])) (\<lambda>items.
       if truthy items then
         bind_exn (py_getitem_0 items) (\<lambda>alb.
         bind_exn (py_getitem_str alb (py ''artists'')) (\<lambda>artists.
         bind_exn (py_getitem_0 artists) (\<lambda>artist0.
         bind_exn (py_getitem_str artist0 (py ''name'')) (\<lambda>artist.
         bind_exn (py_getitem_str alb (py ''name'')) (\<lambda>title.
         bind_exn (py_getitem_str alb (py ''images'')) (\<lambda>images.
         bind_exn
           (if truthy images then
              bind_exn (py_getitem_str alb (py ''images'')) (\<lambda>imgs.
              bind_exn (py_getitem_0 imgs) (\<lambda>img.
                py_getitem_str img (py ''url'')))
            else Inr PNone) (\<lambda>cover_url.
         bind_exn (py_getitem_str alb (py ''id'')) (\<lambda>spotify_id.
           Inr (Some (sp_match artist title spotify_id cover_url))))))))))
       else Inr None))"

text \<open>The body of the \<^verbatim>\<open>try\<close>, lines 64 to 78.\<close>

definition spotify_lookup ::
  "spotify_client \<Rightarrow> pystr \<Rightarrow> call list \<Rightarrow> (exn + pyval option) \<times> call list" where
  "spotify_lookup client query tr =
     (let tr1 = tr @ [SpotifySearch query] in
      case client tr query of
        Inl e \<Rightarrow> (Inl e, tr1)
      | Inr sp_res \<Rightarrow> (sp_album sp_res, tr1))"

text \<open>
  Lines 62 to 80. The client is \<^verbatim>\<open>None\<close> or a client object (an object with no
  \<^verbatim>\<open>__bool__\<close> or \<^verbatim>\<open>__len__\<close> is truthy).
\<close>

definition spotify_block ::
  "spotify_client option \<Rightarrow> pystr \<Rightarrow> pyval list \<Rightarrow> call list
    \<Rightarrow> (exn + pyval list) \<times> call list" where
  "spotify_block spotify_client query matches tr =
     (case spotify_client of
        None \<Rightarrow> (Inr matches, tr)
      | Some client \<Rightarrow> except_Exception_pass matches (spotify_lookup client query tr))"

subsection \<open>The loop over the queries\<close>

text \<open>Line 37 with the matches filled in: the entry of a query.\<close>

definition result_entry :: "pystr \<Rightarrow> pyval list \<Rightarrow> pyval" where
  "result_entry query matches =
     PDict [(py ''query_text'', PStr query), (py ''matches'', PList matches)]"

text \<open>One iteration, lines 37 to 80.\<close>

definition lookup_entry ::
  "services \<Rightarrow> spotify_client option \<Rightarrow> pystr \<Rightarrow> call list \<Rightarrow> (exn + pyval) \<times> call list" where
  "lookup_entry svc spotify_client query tr =
     (case musicbrainz_block svc query [] tr of
        (Inl e, tr1) \<Rightarrow> (Inl e, tr1)
      | (Inr matches1, tr1) \<Rightarrow>
          (case spotify_block spotify_client query matches1 tr1 of
             (Inl e, tr2) \<Rightarrow> (Inl e, tr2)
           | (Inr matches2, tr2) \<Rightarrow>
               (Inr (result_entry query matches2), tr2)))"

fun lookup_loop ::
  "services \<Rightarrow> spotify_client option \<Rightarrow> pystr list \<Rightarrow> pyval list \<Rightarrow> call list
    \<Rightarrow> (exn + pyval list) \<times> call list" where
  "lookup_loop svc spotify_client [] results tr = (Inr results, tr)"
| "lookup_loop svc spotify_client (query # rest) results tr =
     (case lookup_entry svc spotify_client query tr of
        (Inl e, tr') \<Rightarrow> (Inl e, tr')
      | (Inr entry, tr') \<Rightarrow> lookup_loop svc spotify_client rest (results @ [entry]) tr')"

text \<open>
  \<^verbatim>\<open>lookup_metadata(lines, spotify_client)\<close>, run from the history \<open>tr\<close>: the result
  list or the exception that left the function, and the history after the run.
  (\<^verbatim>\<open>set_useragent\<close> only stores three strings in the library.)
\<close>

definition lookup_metadata ::
  "services \<Rightarrow> spotify_client option \<Rightarrow> pystr list \<Rightarrow> call list
    \<Rightarrow> (exn + pyval list) \<times> call list" where
  "lookup_metadata svc spotify_client lines tr = lookup_loop svc spotify_client lines [] tr"

section \<open>\<^verbatim>\<open>extract_text\<close>\<close>

text \<open>
  The line boundaries of \<^verbatim>\<open>str.splitlines\<close> and the whitespace of \<^verbatim>\<open>str.strip\<close>
  (the code points for which \<^verbatim>\<open>str.isspace\<close> holds).
\<close>

definition is_linebreak :: "nat \<Rightarrow> bool" where
  "is_linebreak c \<longleftrightarrow>
     c = 0x0A \<or> c = 0x0B \<or> c = 0x0C \<or> c = 0x0D \<or> c = 0x1C \<or> c = 0x1D \<or> c = 0x1E \<or>
     c = 0x85 \<or> c = 0x2028 \<or> c = 0x2029"

definition is_space :: "nat \<Rightarrow> bool" where
  "is_space c \<longleftrightarrow>
     (0x09 \<le> c \<and> c \<le> 0x0D) \<or> (0x1C \<le> c \<and> c \<le> 0x20) \<or> c = 0x85 \<or> c = 0xA0 \<or>
     c = 0x1680 \<or> (0x2000 \<le> c \<and> c \<le> 0x200A) \<or> c = 0x2028 \<or> c = 0x2029 \<or>
     c = 0x202F \<or> c = 0x205F \<or> c = 0x3000"

text \<open>
  \<^verbatim>\<open>text.splitlines()\<close>: \<open>cur\<close> is the line read so far. A carriage return followed by
  a line feed is one boundary; a boundary at the end of the text opens no further line.
\<close>

fun splitlines_from :: "pystr \<Rightarrow> pystr \<Rightarrow> pystr list" where
  "splitlines_from cur [] = (if cur = [] then [] else [cur])"
| "splitlines_from cur (c # cs) =
     (if c = 0x0D then
        (case cs of
           [] \<Rightarrow> cur # splitlines_from [] cs
         | d # ds \<Rightarrow>
             if d = 0x0A then cur # splitlines_from [] ds else cur # splitlines_from [] cs)
      else if is_linebreak c then cur # splitlines_from [] cs
      else splitlines_from (cur @ [c]) cs)"

definition splitlines :: "pystr \<Rightarrow> pystr list" where
  "splitlines text = splitlines_from [] text"

definition strip :: "pystr \<Rightarrow> pystr" where
  "strip s = rev (dropWhile is_space (rev (dropWhile is_space s)))"

text \<open>Line 28: the stripped lines of the text that are not empty.\<close>

definition text_lines :: "pystr \<Rightarrow> pystr list" where
  "text_lines text = [strip line. line \<leftarrow> splitlines text, strip line \<noteq> []]"

text \<open>
  \<^verbatim>\<open>extract_text(image_file, openai_client)\<close>: the text comes from the hosted engine
  when a client is given (lines 16 to 24) and from the local one otherwise (lines 26
  and 27); an exception of the engine leaves the function.
\<close>

definition extract_text ::
  "('img \<Rightarrow> exn + pystr) \<Rightarrow> ('img \<Rightarrow> exn + pystr) \<Rightarrow> 'img \<Rightarrow> bool \<Rightarrow> exn + pystr list" where
  "extract_text hosted_ocr local_ocr image_file openai_client =
     bind_exn (if openai_client then hosted_ocr image_file else local_ocr image_file)
       (\<lambda>text. Inr (text_lines text))"

section \<open>Notions the properties are stated with\<close>

text \<open>A call that raises raises an instance of \<^verbatim>\<open>Exception\<close>.\<close>

definition only_Exception :: "exn + 'a \<Rightarrow> bool" where
  "only_Exception r = (case r of Inl e \<Rightarrow> is_Exception e | Inr v \<Rightarrow> True)"

definition services_raise_Exception :: "services \<Rightarrow> bool" where
  "services_raise_Exception svc \<longleftrightarrow>
     (\<forall>tr q. only_Exception (search_releases svc tr q)) \<and>
     (\<forall>tr mbid. only_Exception (coverart_get_json svc tr mbid))"

definition client_raises_Exception :: "spotify_client option \<Rightarrow> bool" where
  "client_raises_Exception spotify_client \<longleftrightarrow>
     (\<forall>client tr q. spotify_client = Some client \<longrightarrow> only_Exception (client tr q))"

text \<open>Fixed responses: the answer to a call does not depend on the history.\<close>

definition fixed_services :: "services \<Rightarrow> bool" where
  "fixed_services svc \<longleftrightarrow>
     (\<forall>tr tr' q. search_releases svc tr q = search_releases svc tr' q) \<and>
     (\<forall>tr tr' mbid. coverart_get_json svc tr mbid = coverart_get_json svc tr' mbid)"

definition fixed_client :: "spotify_client option \<Rightarrow> bool" where
  "fixed_client spotify_client \<longleftrightarrow>
     (\<forall>client tr tr' q. spotify_client = Some client \<longrightarrow> client tr q = client tr' q)"

text \<open>The value of the \<^verbatim>\<open>source\<close> key of a match.\<close>

definition match_source :: "pyval \<Rightarrow> exn + pyval" where
  "match_source m = py_getitem_str m (py ''source'')"

fun is_spotify_call :: "call \<Rightarrow> bool" where
  "is_spotify_call (SpotifySearch q) = True"
| "is_spotify_call _ = False"

text \<open>
  What the two blocks append for a query: the MusicBrainz block from the history \<open>tr\<close>,
  the Spotify block from the history the MusicBrainz block leaves.
\<close>

definition musicbrainz_appended :: "services \<Rightarrow> pystr \<Rightarrow> call list \<Rightarrow> pyval list" where
  "musicbrainz_appended svc query tr =
     (case fst (musicbrainz_lookup svc query tr) of Inr (Some m) \<Rightarrow> [m] | _ \<Rightarrow> [])"

definition spotify_appended :: "spotify_client option \<Rightarrow> pystr \<Rightarrow> call list \<Rightarrow> pyval list" where
  "spotify_appended spotify_client query tr =
     (case spotify_client of
        None \<Rightarrow> []
      | Some client \<Rightarrow>
          (case fst (spotify_lookup client query tr) of Inr (Some m) \<Rightarrow> [m] | _ \<Rightarrow> []))"

definition entry_matches ::
  "services \<Rightarrow> spotify_client option \<Rightarrow> pystr \<Rightarrow> call list \<Rightarrow> pyval list" where
  "entry_matches svc spotify_client query tr =
     musicbrainz_appended svc query tr @
     spotify_appended spotify_client query (snd (musicbrainz_lookup svc query tr))"

text \<open>The history at the start of the iteration for the query of index \<open>i\<close>.\<close>

definition history_before ::
  "services \<Rightarrow> spotify_client option \<Rightarrow> pystr list \<Rightarrow> call list \<Rightarrow> nat \<Rightarrow> call list" where
  "history_before svc spotify_client lines tr i =
     snd (lookup_metadata svc spotify_client (take i lines) tr)"

text \<open>
  The number of adapters whose \<^verbatim>\<open>try\<close> body reaches its \<^verbatim>\<open>append\<close> for a query, from
  the history \<open>tr\<close>.
\<close>

definition adapter_successes ::
  "services \<Rightarrow> spotify_client option \<Rightarrow> pystr \<Rightarrow> call list \<Rightarrow> nat" where
  "adapter_successes svc spotify_client query tr =
     (case fst (musicbrainz_lookup svc query tr) of Inr (Some m) \<Rightarrow> 1 | _ \<Rightarrow> 0) +
     (case spotify_client of
        None \<Rightarrow> 0
      | Some client \<Rightarrow>
          (case fst (spotify_lookup client query (snd (musicbrainz_lookup svc query tr))) of
             Inr (Some m) \<Rightarrow> 1
           | _ \<Rightarrow> 0))"



section \<open>Sample providers\<close>

definition demo_release :: pyval where
  "demo_release =
     PDict [(py ''id'', PStr (py ''mbid-1'')),
            (py ''title'', PStr (py ''Abbey Road'')),
            (py ''artist-credit'',
               PList [PDict [(py ''artist'', PDict [(py ''name'', PStr (py ''The Beatles''))])]])]"

definition demo_services :: services where
  "demo_services =
     \<lparr> search_releases = (\<lambda>tr q.
         if q = py ''Abbey Road'' then Inr (PDict [(py ''release-list'', PList [demo_release])])
         else Inr (PDict [(py ''release-list'', PList [])])),
       coverart_get_json = (\<lambda>tr mbid.
         Inr (PDict [(py ''images'', PList [PDict [(py ''image'', PStr (py ''http://c/1''))]])])) \<rparr>"

definition demo_album :: pyval where
  "demo_album =
     PDict [(py ''artists'', PList [PDict [(py ''name'', PStr (py ''The Beatles''))]]),
            (py ''name'', PStr (py ''Abbey Road'')),
            (py ''images'', PList []),
            (py ''id'', PStr (py ''sp-1''))]"

definition demo_spotify :: spotify_client where
  "demo_spotify = (\<lambda>tr q.
     if q = py ''Abbey Road''
     then Inr (PDict [(py ''albums'', PDict [(py ''items'', PList [demo_album])])])
     else Inr (PDict [(py ''albums'', PDict [(py ''items'', PList [])])]))"

text \<open>Providers that raise on every call.\<close>

definition failing_services :: services where
  "failing_services =
     \<lparr> search_releases = (\<lambda>tr q. Inl (LibraryError (py ''WebServiceError''))),
       coverart_get_json = (\<lambda>tr mbid. Inl (LibraryError (py ''ConnectionError''))) \<rparr>"

definition failing_spotify :: spotify_client where
  "failing_spotify = (\<lambda>tr q. Inl (LibraryError (py ''SpotifyException'')))"

text \<open>A MusicBrainz whose first release has an identifier and a title and no artist credit.\<close>

definition no_artist_services :: services where
  "no_artist_services =
     \<lparr> search_releases = (\<lambda>tr q.
         Inr (PDict [(py ''release-list'',
                PList [PDict [(py ''id'', PStr (py ''mbid-1'')),
                              (py ''title'', PStr (py ''Abbey Road''))]])])),
       coverart_get_json = (\<lambda>tr mbid. Inr (PDict [])) \<rparr>"

text \<open>A MusicBrainz whose first release has an artist credit and no identifier or title.\<close>

definition untitled_services :: services where
  "untitled_services =
     demo_services \<lparr> search_releases := (\<lambda>tr q.
       Inr (PDict [(py ''release-list'',
              PList [PDict [(py ''artist-credit'',
                PList [PDict [(py ''artist'',
                  PDict [(py ''name'', PStr (py ''The Beatles''))])]])]])])) \<rparr>"


text \<open>
  A cover art archive that raises, one that answers with a list instead of a dictionary,
  and a Spotify client that answers with a list.
\<close>

definition coverless_services :: services where
  "coverless_services =
     demo_services \<lparr> coverart_get_json := (\<lambda>tr mbid. Inl (LibraryError (py ''JSONDecodeError''))) \<rparr>"

definition odd_cover_services :: services where
  "odd_cover_services = demo_services \<lparr> coverart_get_json := (\<lambda>tr mbid. Inr (PList [])) \<rparr>"

definition odd_spotify :: spotify_client where
  "odd_spotify = (\<lambda>tr q. Inr (PList []))"

definition demo_lines :: "pystr list" where
  "demo_lines = [py ''Abbey Road'', py ''??garbled??'']"

section \<open>Line normalization\<close>

lemma py_eq_iff: "py a = py b \<longleftrightarrow> a = b"
  unfolding py_def by (simp add: inj_map_eq_map inj_on_def)












section \<open>What the provider blocks raise and append\<close>

lemma only_Exception_simps:
  "only_Exception (Inl e) = is_Exception e" "only_Exception (Inr v) = True"
  by (simp_all add: only_Exception_def)

lemma only_Exception_bind:
  "only_Exception r \<Longrightarrow> (\<And>v. only_Exception (f v)) \<Longrightarrow> only_Exception (bind_exn r f)"
  by (cases r) (simp_all add: bind_exn_def only_Exception_def)

lemma only_Exception_if:
  "only_Exception x \<Longrightarrow> only_Exception y \<Longrightarrow> only_Exception (if b then x else y)"
  by simp

lemma only_Exception_py_get: "only_Exception (py_get obj k dflt)"
  by (cases obj) (simp_all add: only_Exception_def)

lemma only_Exception_py_getitem_str: "only_Exception (py_getitem_str obj k)"
  by (cases obj) (simp_all add: only_Exception_def split: option.splits)

lemma only_Exception_py_getitem_0: "only_Exception (py_getitem_0 obj)"
  by (cases obj rule: py_getitem_0.cases) (simp_all add: only_Exception_def)

lemmas only_Exception_intros =
  only_Exception_bind only_Exception_if only_Exception_py_get only_Exception_py_getitem_str
  only_Exception_py_getitem_0 only_Exception_simps(2) [THEN iffD2, OF TrueI]

lemma only_Exception_mb_release: "only_Exception (mb_release mb)"
  unfolding mb_release_def by (intro only_Exception_intros)

lemma only_Exception_mb_cover_url: "only_Exception (mb_cover_url art_json)"
  unfolding mb_cover_url_def by (intro only_Exception_intros)

lemma only_Exception_sp_album: "only_Exception (sp_album sp_res)"
  unfolding sp_album_def by (intro only_Exception_intros)

lemma only_ExceptionD: "only_Exception r \<Longrightarrow> r = Inl e \<Longrightarrow> is_Exception e"
  by (simp add: only_Exception_def)

lemma services_raise_ExceptionD:
  assumes "services_raise_Exception svc"
  shows "search_releases svc tr q = Inl e \<Longrightarrow> is_Exception e"
    and "coverart_get_json svc tr mbid = Inl e \<Longrightarrow> is_Exception e"
  using assms unfolding services_raise_Exception_def
  by (metis only_ExceptionD)+

lemma client_raises_ExceptionD:
  "client_raises_Exception (Some client) \<Longrightarrow> client tr q = Inl e \<Longrightarrow> is_Exception e"
  unfolding client_raises_Exception_def by (metis only_ExceptionD)

lemma musicbrainz_lookup_only_Exception:
  "services_raise_Exception svc \<Longrightarrow> only_Exception (fst (musicbrainz_lookup svc q tr))"
  unfolding musicbrainz_lookup_def Let_def
  by (auto simp: only_Exception_simps split: sum.splits option.splits prod.splits
      dest: services_raise_ExceptionD only_ExceptionD [OF only_Exception_mb_release]
        only_ExceptionD [OF only_Exception_mb_cover_url])

lemma spotify_lookup_only_Exception:
  "client_raises_Exception (Some client) \<Longrightarrow> only_Exception (fst (spotify_lookup client q tr))"
  unfolding spotify_lookup_def Let_def
  by (auto simp: only_Exception_simps only_Exception_sp_album split: sum.splits
      dest: client_raises_ExceptionD)

lemma musicbrainz_lookup_match:
  "musicbrainz_lookup svc q tr = (Inr (Some m), tr') \<Longrightarrow> \<exists>a t i c. m = mb_match a t i c"
  unfolding musicbrainz_lookup_def Let_def
  by (auto split: sum.splits option.splits prod.splits)

lemma sp_album_match:
  "sp_album sp_res = Inr (Some m) \<Longrightarrow> \<exists>a t i c. m = sp_match a t i c"
  unfolding sp_album_def bind_exn_def
  by (auto split: sum.splits if_splits)

lemma spotify_lookup_match:
  "spotify_lookup client q tr = (Inr (Some m), tr') \<Longrightarrow> \<exists>a t i c. m = sp_match a t i c"
  unfolding spotify_lookup_def Let_def
  by (auto split: sum.splits dest: sp_album_match)

section \<open>The entries of a run\<close>

lemma musicbrainz_block_eq:
  assumes "services_raise_Exception svc"
  shows "musicbrainz_block svc q ms tr =
    (Inr (ms @ musicbrainz_appended svc q tr), snd (musicbrainz_lookup svc q tr))"
proof -
  obtain r t where L: "musicbrainz_lookup svc q tr = (r, t)" by (cases "musicbrainz_lookup svc q tr")
  with musicbrainz_lookup_only_Exception [OF assms, of q tr] have "only_Exception r" by simp
  with L show ?thesis
    by (auto simp: musicbrainz_block_def except_Exception_pass_def musicbrainz_appended_def
        only_Exception_def split: sum.splits option.splits)
qed

lemma spotify_block_eq:
  assumes "client_raises_Exception sp"
  shows "spotify_block sp q ms tr =
    (Inr (ms @ spotify_appended sp q tr),
     (case sp of None \<Rightarrow> tr | Some client \<Rightarrow> snd (spotify_lookup client q tr)))"
proof (cases sp)
  case None
  then show ?thesis by (simp add: spotify_block_def spotify_appended_def)
next
  case (Some client)
  obtain r t where L: "spotify_lookup client q tr = (r, t)" by (cases "spotify_lookup client q tr")
  from assms Some have "client_raises_Exception (Some client)" by simp
  from spotify_lookup_only_Exception [OF this, of q tr] L have "only_Exception r" by simp
  with L Some show ?thesis
    by (auto simp: spotify_block_def except_Exception_pass_def spotify_appended_def
        only_Exception_def split: sum.splits option.splits)
qed

lemma lookup_entry_eq:
  assumes "services_raise_Exception svc" "client_raises_Exception sp"
  shows "\<exists>tr'. lookup_entry svc sp q tr = (Inr (result_entry q (entry_matches svc sp q tr)), tr')"
  by (simp add: lookup_entry_def musicbrainz_block_eq [OF assms(1)] spotify_block_eq [OF assms(2)]
      entry_matches_def)

lemma lookup_loop_append:
  "lookup_loop svc sp (xs @ ys) results tr =
     (case lookup_loop svc sp xs results tr of
        (Inl e, t) \<Rightarrow> (Inl e, t)
      | (Inr rs, t) \<Rightarrow> lookup_loop svc sp ys rs t)"
  by (induction xs arbitrary: results tr) (simp_all split: prod.splits sum.splits)

lemma lookup_metadata_snoc:
  "lookup_metadata svc sp (lines @ [q]) tr =
     (case lookup_metadata svc sp lines tr of
        (Inl e, t) \<Rightarrow> (Inl e, t)
      | (Inr rs, t) \<Rightarrow>
          (case lookup_entry svc sp q t of
             (Inl e, t') \<Rightarrow> (Inl e, t')
           | (Inr entry, t') \<Rightarrow> (Inr (rs @ [entry]), t')))"
  by (simp add: lookup_metadata_def lookup_loop_append split: prod.splits sum.splits)

lemma history_before_snoc:
  "i \<le> length lines \<Longrightarrow>
   history_before svc sp (lines @ [q]) tr i = history_before svc sp lines tr i"
  by (simp add: history_before_def)

lemma lookup_metadata_entries:
  assumes "services_raise_Exception svc" "client_raises_Exception sp"
  shows "\<exists>tr'. lookup_metadata svc sp lines tr =
     (Inr (map (\<lambda>i. result_entry (lines ! i)
                  (entry_matches svc sp (lines ! i) (history_before svc sp lines tr i)))
            [0..<length lines]), tr')"
proof (induction lines rule: rev_induct)
  case Nil
  show ?case by (simp add: lookup_metadata_def)
next
  case (snoc q lines)
  let ?E = "\<lambda>ls i. result_entry (ls ! i) (entry_matches svc sp (ls ! i) (history_before svc sp ls tr i))"
  from snoc obtain t where L: "lookup_metadata svc sp lines tr = (Inr (map (?E lines) [0..<length lines]), t)"
    by blast
  then have t: "history_before svc sp (lines @ [q]) tr (length lines) = t"
    by (simp add: history_before_def)
  obtain t' where E: "lookup_entry svc sp q t = (Inr (result_entry q (entry_matches svc sp q t)), t')"
    using lookup_entry_eq [OF assms] by blast
  have "map (?E (lines @ [q])) [0..<length lines] = map (?E lines) [0..<length lines]"
    by (rule map_cong) (simp_all add: history_before_snoc nth_append)
  moreover have "?E (lines @ [q]) (length lines) = result_entry q (entry_matches svc sp q t)"
    using t by simp
  ultimately have "map (?E (lines @ [q])) [0..<length (lines @ [q])]
      = map (?E lines) [0..<length lines] @ [result_entry q (entry_matches svc sp q t)]"
    by simp
  with L E show ?case by (simp add: lookup_metadata_snoc)
qed

lemma musicbrainz_appended_shape:
  "musicbrainz_appended svc q tr = [] \<or> (\<exists>a t i c. musicbrainz_appended svc q tr = [mb_match a t i c])"
proof (cases "musicbrainz_lookup svc q tr")
  case (Pair r t)
  then show ?thesis
    using musicbrainz_lookup_match [of svc q tr _ t]
    by (cases r) (auto simp: musicbrainz_appended_def split: option.splits)
qed

lemma spotify_appended_shape:
  "spotify_appended sp q tr = [] \<or> (\<exists>a t i c. spotify_appended sp q tr = [sp_match a t i c])"
proof (cases sp)
  case None
  then show ?thesis by (simp add: spotify_appended_def)
next
  case (Some client)
  show ?thesis
  proof (cases "spotify_lookup client q tr")
    case (Pair r t)
    with Some show ?thesis
      using spotify_lookup_match [of client q tr _ t]
      by (cases r) (auto simp: spotify_appended_def split: option.splits)
  qed
qed

lemma match_source_simps:
  "match_source (mb_match a t i c) = Inr (PStr (py ''MusicBrainz''))"
  "match_source (sp_match a t i c) = Inr (PStr (py ''Spotify''))"
  by (simp_all add: match_source_def mb_match_def sp_match_def)

lemma adapter_successes_eq:
  "adapter_successes svc sp q tr = length (entry_matches svc sp q tr)"
  by (simp add: adapter_successes_def entry_matches_def musicbrainz_appended_def
      spotify_appended_def split: sum.splits option.splits)

lemma result_entry_items:
  "py_getitem_str (result_entry q ms) (py ''query_text'') = Inr (PStr q)"
  "py_getitem_str (result_entry q ms) (py ''matches'') = Inr (PList ms)"
  by (simp_all add: result_entry_def py_eq_iff)

text \<open>
  Claim C1. When the providers raise only instances of \<^verbatim>\<open>Exception\<close>, for every list
  of \<open>N\<close> queries \<^verbatim>\<open>lookup_metadata\<close> returns a list of exactly \<open>N\<close> entries, in the order
  of the queries: the entry of index \<open>i\<close> is the dictionary with the query of index \<open>i\<close>
  under \<^verbatim>\<open>query_text\<close> and a list under \<^verbatim>\<open>matches\<close>, which has one match for each
  adapter that succeeded on that query. A query on which no adapter succeeded still has
  its entry, with the empty list of matches.
\<close>

theorem lookup_metadata_one_entry_per_query:
  assumes "services_raise_Exception svc" and "client_raises_Exception spotify_client"
  shows "\<exists>results tr'.
    lookup_metadata svc spotify_client lines tr = (Inr results, tr')
    \<and> length results = length lines
    \<and> (\<forall>i<length lines. \<exists>matches.
          results ! i = PDict [(py ''query_text'', PStr (lines ! i)), (py ''matches'', PList matches)]
          \<and> length matches =
              adapter_successes svc spotify_client (lines ! i)
                (history_before svc spotify_client lines tr i)
          \<and> (adapter_successes svc spotify_client (lines ! i)
                (history_before svc spotify_client lines tr i) = 0 \<longrightarrow> matches = []))"
proof -
  let ?M = "\<lambda>i. entry_matches svc spotify_client (lines ! i)
                (history_before svc spotify_client lines tr i)"
  let ?rs = "map (\<lambda>i. result_entry (lines ! i) (?M i)) [0..<length lines]"
  from lookup_metadata_entries [OF assms, of lines tr]
  obtain tr' where L: "lookup_metadata svc spotify_client lines tr = (Inr ?rs, tr')" by blast
  have len: "length ?rs = length lines" by simp
  have "\<exists>matches.
          ?rs ! i = PDict [(py ''query_text'', PStr (lines ! i)), (py ''matches'', PList matches)]
          \<and> length matches =
              adapter_successes svc spotify_client (lines ! i)
                (history_before svc spotify_client lines tr i)
          \<and> (adapter_successes svc spotify_client (lines ! i)
                (history_before svc spotify_client lines tr i) = 0 \<longrightarrow> matches = [])"
    if "i < length lines" for i
  proof -
    from that have "?rs ! i = result_entry (lines ! i) (?M i)" by simp
    then have a: "?rs ! i = PDict [(py ''query_text'', PStr (lines ! i)), (py ''matches'', PList (?M i))]"
      by (simp add: result_entry_def)
    have b: "length (?M i) = adapter_successes svc spotify_client (lines ! i)
                (history_before svc spotify_client lines tr i)"
      by (simp add: adapter_successes_eq)
    have c: "adapter_successes svc spotify_client (lines ! i)
                (history_before svc spotify_client lines tr i) = 0 \<longrightarrow> ?M i = []"
      by (simp add: adapter_successes_eq)
    show ?thesis by (rule exI [of _ "?M i"]) (intro conjI a b c)
  qed
  with L len show ?thesis by blast
qed

section \<open>A sample run\<close>

lemma demo_services_raise_Exception: "services_raise_Exception demo_services"
  by (simp add: services_raise_Exception_def demo_services_def only_Exception_def)

lemma demo_spotify_raises_Exception: "client_raises_Exception (Some demo_spotify)"
  by (simp add: client_raises_Exception_def demo_spotify_def only_Exception_def)

lemma demo_mb_release:
  "mb_release (PDict [(py ''release-list'', PList [demo_release])])
     = Inr (Some (PStr (py ''mbid-1''), PStr (py ''The Beatles''), PStr (py ''Abbey Road'')))"
  "mb_release (PDict [(py ''release-list'', PList [])]) = Inr None"
  by (simp_all add: mb_release_def demo_release_def bind_exn_def py_eq_iff)

lemma demo_mb_cover_url:
  "mb_cover_url (PDict [(py ''images'', PList [PDict [(py ''image'', PStr (py ''http://c/1''))]])])
     = Inr (PStr (py ''http://c/1''))"
  by (simp add: mb_cover_url_def bind_exn_def py_eq_iff)

lemma demo_sp_album:
  "sp_album (PDict [(py ''albums'', PDict [(py ''items'', PList [demo_album])])])
     = Inr (Some (sp_match (PStr (py ''The Beatles'')) (PStr (py ''Abbey Road''))
                    (PStr (py ''sp-1'')) PNone))"
  "sp_album (PDict [(py ''albums'', PDict [(py ''items'', PList [])])]) = Inr None"
  by (simp_all add: sp_album_def demo_album_def bind_exn_def py_eq_iff)

lemma demo_musicbrainz_lookup:
  "musicbrainz_lookup demo_services (py ''Abbey Road'') tr =
     (Inr (Some (mb_match (PStr (py ''The Beatles'')) (PStr (py ''Abbey Road''))
                   (PStr (py ''mbid-1'')) (PStr (py ''http://c/1'')))),
      tr @ [SearchReleases (py ''Abbey Road''), CoverArtGet (PStr (py ''mbid-1''))])"
  "musicbrainz_lookup demo_services (py ''??garbled??'') tr =
     (Inr None, tr @ [SearchReleases (py ''??garbled??'')])"
  by (simp_all add: musicbrainz_lookup_def demo_services_def demo_mb_release demo_mb_cover_url
      py_eq_iff)

lemma demo_spotify_lookup:
  "spotify_lookup demo_spotify (py ''Abbey Road'') tr =
     (Inr (Some (sp_match (PStr (py ''The Beatles'')) (PStr (py ''Abbey Road''))
                    (PStr (py ''sp-1'')) PNone)),
      tr @ [SpotifySearch (py ''Abbey Road'')])"
  "spotify_lookup demo_spotify (py ''??garbled??'') tr =
     (Inr None, tr @ [SpotifySearch (py ''??garbled??'')])"
  by (simp_all add: spotify_lookup_def demo_spotify_def demo_sp_album py_eq_iff)

lemma demo_lookup_metadata:
  "lookup_metadata demo_services (Some demo_spotify) demo_lines [] =
     (Inr [result_entry (py ''Abbey Road'')
             [mb_match (PStr (py ''The Beatles'')) (PStr (py ''Abbey Road''))
                (PStr (py ''mbid-1'')) (PStr (py ''http://c/1'')),
              sp_match (PStr (py ''The Beatles'')) (PStr (py ''Abbey Road''))
                (PStr (py ''sp-1'')) PNone],
           result_entry (py ''??garbled??'') []],
      [SearchReleases (py ''Abbey Road''), CoverArtGet (PStr (py ''mbid-1'')),
       SpotifySearch (py ''Abbey Road''),
       SearchReleases (py ''??garbled??''), SpotifySearch (py ''??garbled??'')])"
  by (simp add: lookup_metadata_def demo_lines_def lookup_entry_def musicbrainz_block_def
      spotify_block_def except_Exception_pass_def demo_musicbrainz_lookup demo_spotify_lookup)

theorem lookup_metadata_one_entry_per_query_witness:
  "services_raise_Exception demo_services
   \<and> client_raises_Exception (Some demo_spotify)
   \<and> (\<exists>results tr'.
        lookup_metadata demo_services (Some demo_spotify) demo_lines [] = (Inr results, tr')
        \<and> length results = 2
        \<and> results ! 1 = PDict [(py ''query_text'', PStr (py ''??garbled??'')),
                                (py ''matches'', PList [])])"
proof -
  note h = demo_services_raise_Exception demo_spotify_raises_Exception
  from lookup_metadata_one_entry_per_query [OF h, of demo_lines "[]"]
  obtain results tr' where
    L: "lookup_metadata demo_services (Some demo_spotify) demo_lines [] = (Inr results, tr')"
    and n: "length results = length demo_lines"
    and e: "\<forall>i<length demo_lines. \<exists>matches.
          results ! i = PDict [(py ''query_text'', PStr (demo_lines ! i)), (py ''matches'', PList matches)]
          \<and> length matches =
              adapter_successes demo_services (Some demo_spotify) (demo_lines ! i)
                (history_before demo_services (Some demo_spotify) demo_lines [] i)
          \<and> (adapter_successes demo_services (Some demo_spotify) (demo_lines ! i)
                (history_before demo_services (Some demo_spotify) demo_lines [] i) = 0
              \<longrightarrow> matches = [])"
    by blast
  have z: "adapter_successes demo_services (Some demo_spotify) (py ''??garbled??'') t = 0" for t
    by (simp add: adapter_successes_def demo_musicbrainz_lookup demo_spotify_lookup)
  have "(1::nat) < length demo_lines" by (simp add: demo_lines_def)
  with e obtain matches where
    "results ! 1 = PDict [(py ''query_text'', PStr (demo_lines ! 1)), (py ''matches'', PList matches)]"
    and "adapter_successes demo_services (Some demo_spotify) (demo_lines ! 1)
                (history_before demo_services (Some demo_spotify) demo_lines [] 1) = 0
              \<longrightarrow> matches = []"
    by blast
  with z have "results ! 1 = PDict [(py ''query_text'', PStr (py ''??garbled??'')),
                                (py ''matches'', PList [])]"
    by (simp add: demo_lines_def)
  moreover from n have "length results = 2" by (simp add: demo_lines_def)
  ultimately show ?thesis using h L by blast
qed

section \<open>Exceptions inside the provider blocks\<close>

lemma musicbrainz_block_search_raises:
  "search_releases svc tr query = Inl e \<Longrightarrow> is_Exception e \<Longrightarrow>
   musicbrainz_block svc query matches tr = (Inr matches, tr @ [SearchReleases query])"
  by (simp add: musicbrainz_block_def musicbrainz_lookup_def except_Exception_pass_def)

lemma musicbrainz_block_release_raises:
  "search_releases svc tr query = Inr mb \<Longrightarrow> mb_release mb = Inl e \<Longrightarrow>
   musicbrainz_block svc query matches tr = (Inr matches, tr @ [SearchReleases query])"
  using only_ExceptionD [OF only_Exception_mb_release, of mb e]
  by (simp add: musicbrainz_block_def musicbrainz_lookup_def except_Exception_pass_def)

lemma musicbrainz_block_coverart_raises:
  "search_releases svc tr query = Inr mb \<Longrightarrow> mb_release mb = Inr (Some (mbid, artist, title)) \<Longrightarrow>
   coverart_get_json svc (tr @ [SearchReleases query]) mbid = Inl e \<Longrightarrow> is_Exception e \<Longrightarrow>
   musicbrainz_block svc query matches tr =
     (Inr matches, tr @ [SearchReleases query, CoverArtGet mbid])"
  by (simp add: musicbrainz_block_def musicbrainz_lookup_def except_Exception_pass_def)

lemma musicbrainz_block_cover_url_raises:
  "search_releases svc tr query = Inr mb \<Longrightarrow> mb_release mb = Inr (Some (mbid, artist, title)) \<Longrightarrow>
   coverart_get_json svc (tr @ [SearchReleases query]) mbid = Inr art_json \<Longrightarrow>
   mb_cover_url art_json = Inl e \<Longrightarrow>
   musicbrainz_block svc query matches tr =
     (Inr matches, tr @ [SearchReleases query, CoverArtGet mbid])"
  using only_ExceptionD [OF only_Exception_mb_cover_url, of art_json e]
  by (simp add: musicbrainz_block_def musicbrainz_lookup_def except_Exception_pass_def)

lemma spotify_block_search_raises:
  "client tr query = Inl e \<Longrightarrow> is_Exception e \<Longrightarrow>
   spotify_block (Some client) query matches tr = (Inr matches, tr @ [SpotifySearch query])"
  by (simp add: spotify_block_def spotify_lookup_def except_Exception_pass_def)

lemma spotify_block_album_raises:
  "client tr query = Inr sp_res \<Longrightarrow> sp_album sp_res = Inl e \<Longrightarrow>
   spotify_block (Some client) query matches tr = (Inr matches, tr @ [SpotifySearch query])"
  using only_ExceptionD [OF only_Exception_sp_album, of sp_res e]
  by (simp add: spotify_block_def spotify_lookup_def except_Exception_pass_def)

lemma lookup_metadata_returns:
  assumes "services_raise_Exception svc" and "client_raises_Exception spotify_client"
  shows "\<exists>results tr'. lookup_metadata svc spotify_client lines tr = (Inr results, tr')"
  using lookup_metadata_entries [OF assms, of lines tr] by blast

text \<open>
  The cancellation signals are no instances of \<^verbatim>\<open>Exception\<close>: one raised by a provider
  call leaves \<^verbatim>\<open>lookup_metadata\<close>.
\<close>

lemma cancellation_propagates:
  "search_releases svc tr query = Inl KeyboardInterrupt \<Longrightarrow>
   fst (lookup_metadata svc spotify_client (query # rest) tr) = Inl KeyboardInterrupt"
  by (simp add: lookup_metadata_def lookup_entry_def musicbrainz_block_def
      musicbrainz_lookup_def except_Exception_pass_def)

text \<open>
  Claim C2. In the MusicBrainz block an exception (an instance of \<^verbatim>\<open>Exception\<close>) raised
  by the search call, by the reading of the response, by the cover art call or by the
  reading of its answer is caught in the block, which leaves the matches of the query as
  they were; so it is in the Spotify block for the search call and the reading of its
  response. When the providers raise only instances of \<^verbatim>\<open>Exception\<close>,
  \<^verbatim>\<open>lookup_metadata\<close> returns its result list: no exception reaches the caller.
\<close>

theorem provider_exceptions_are_caught:
  "(search_releases svc tr query = Inl e \<and> is_Exception e
      \<longrightarrow> musicbrainz_block svc query matches tr = (Inr matches, tr @ [SearchReleases query]))
   \<and> (search_releases svc tr query = Inr mb \<and> mb_release mb = Inl e
      \<longrightarrow> musicbrainz_block svc query matches tr = (Inr matches, tr @ [SearchReleases query]))
   \<and> (search_releases svc tr query = Inr mb \<and> mb_release mb = Inr (Some (mbid, artist, title))
       \<and> coverart_get_json svc (tr @ [SearchReleases query]) mbid = Inl e \<and> is_Exception e
      \<longrightarrow> musicbrainz_block svc query matches tr =
            (Inr matches, tr @ [SearchReleases query, CoverArtGet mbid]))
   \<and> (search_releases svc tr query = Inr mb \<and> mb_release mb = Inr (Some (mbid, artist, title))
       \<and> coverart_get_json svc (tr @ [SearchReleases query]) mbid = Inr art_json
       \<and> mb_cover_url art_json = Inl e
      \<longrightarrow> musicbrainz_block svc query matches tr =
            (Inr matches, tr @ [SearchReleases query, CoverArtGet mbid]))
   \<and> (client tr query = Inl e \<and> is_Exception e
      \<longrightarrow> spotify_block (Some client) query matches tr = (Inr matches, tr @ [SpotifySearch query]))
   \<and> (client tr query = Inr sp_res \<and> sp_album sp_res = Inl e
      \<longrightarrow> spotify_block (Some client) query matches tr = (Inr matches, tr @ [SpotifySearch query]))
   \<and> (services_raise_Exception svc \<and> client_raises_Exception spotify_client
      \<longrightarrow> (\<exists>results tr'. lookup_metadata svc spotify_client lines tr = (Inr results, tr')))"
  by (intro conjI impI; (elim conjE)?)
     (erule (1) musicbrainz_block_search_raises musicbrainz_block_release_raises
        spotify_block_search_raises spotify_block_album_raises lookup_metadata_returns
      | erule (3) musicbrainz_block_coverart_raises musicbrainz_block_cover_url_raises)+

lemma no_artist_mb_release:
  "mb_release (PDict [(py ''release-list'',
      PList [PDict [(py ''id'', PStr (py ''mbid-1'')), (py ''title'', PStr (py ''Abbey Road''))]])])
   = Inl KeyError"
  by (simp add: mb_release_def bind_exn_def py_eq_iff)

theorem provider_exceptions_are_caught_witness:
  "musicbrainz_block failing_services (py ''Abbey Road'') [] []
     = (Inr [], [SearchReleases (py ''Abbey Road'')])
   \<and> musicbrainz_block no_artist_services (py ''Abbey Road'') [] []
     = (Inr [], [SearchReleases (py ''Abbey Road'')])
   \<and> musicbrainz_block coverless_services (py ''Abbey Road'') [] []
     = (Inr [], [SearchReleases (py ''Abbey Road''), CoverArtGet (PStr (py ''mbid-1''))])
   \<and> musicbrainz_block odd_cover_services (py ''Abbey Road'') [] []
     = (Inr [], [SearchReleases (py ''Abbey Road''), CoverArtGet (PStr (py ''mbid-1''))])
   \<and> spotify_block (Some failing_spotify) (py ''Abbey Road'') [] []
     = (Inr [], [SpotifySearch (py ''Abbey Road'')])
   \<and> spotify_block (Some odd_spotify) (py ''Abbey Road'') [] []
     = (Inr [], [SpotifySearch (py ''Abbey Road'')])
   \<and> (\<exists>results tr'.
        lookup_metadata failing_services (Some failing_spotify) demo_lines [] = (Inr results, tr'))"
proof -
  let ?q = "py ''Abbey Road''"
  have c1: "musicbrainz_block failing_services ?q [] [] = (Inr [], [SearchReleases ?q])"
    using provider_exceptions_are_caught [where svc = failing_services and tr = "[]"
        and query = ?q and e = "LibraryError (py ''WebServiceError'')" and matches = "[]",
        THEN conjunct1]
    by (simp add: failing_services_def)
  have c2: "musicbrainz_block no_artist_services ?q [] [] = (Inr [], [SearchReleases ?q])"
    using provider_exceptions_are_caught [where svc = no_artist_services and tr = "[]"
        and query = ?q and e = KeyError and matches = "[]"
        and mb = "PDict [(py ''release-list'',
          PList [PDict [(py ''id'', PStr (py ''mbid-1'')), (py ''title'', PStr (py ''Abbey Road''))]])]",
        THEN conjunct2, THEN conjunct1]
    by (simp add: no_artist_services_def no_artist_mb_release)
  have c3: "musicbrainz_block coverless_services ?q [] []
      = (Inr [], [SearchReleases ?q, CoverArtGet (PStr (py ''mbid-1''))])"
    using provider_exceptions_are_caught [where svc = coverless_services and tr = "[]"
        and query = ?q and e = "LibraryError (py ''JSONDecodeError'')" and matches = "[]"
        and mb = "PDict [(py ''release-list'', PList [demo_release])]"
        and mbid = "PStr (py ''mbid-1'')" and artist = "PStr (py ''The Beatles'')"
        and title = "PStr (py ''Abbey Road'')",
        THEN conjunct2, THEN conjunct2, THEN conjunct1]
    by (simp add: coverless_services_def demo_services_def demo_mb_release)
  have c4: "musicbrainz_block odd_cover_services ?q [] []
      = (Inr [], [SearchReleases ?q, CoverArtGet (PStr (py ''mbid-1''))])"
    using provider_exceptions_are_caught [where svc = odd_cover_services and tr = "[]"
        and query = ?q and e = AttributeError and matches = "[]"
        and mb = "PDict [(py ''release-list'', PList [demo_release])]"
        and mbid = "PStr (py ''mbid-1'')" and artist = "PStr (py ''The Beatles'')"
        and title = "PStr (py ''Abbey Road'')" and art_json = "PList []",
        THEN conjunct2, THEN conjunct2, THEN conjunct2, THEN conjunct1]
    by (simp add: odd_cover_services_def demo_services_def demo_mb_release mb_cover_url_def
        bind_exn_def)
  have c5: "spotify_block (Some failing_spotify) ?q [] [] = (Inr [], [SpotifySearch ?q])"
    using provider_exceptions_are_caught [where client = failing_spotify and tr = "[]"
        and query = ?q and e = "LibraryError (py ''SpotifyException'')" and matches = "[]",
        THEN conjunct2, THEN conjunct2, THEN conjunct2, THEN conjunct2, THEN conjunct1]
    by (simp add: failing_spotify_def)
  have c6: "spotify_block (Some odd_spotify) ?q [] [] = (Inr [], [SpotifySearch ?q])"
    using provider_exceptions_are_caught [where client = odd_spotify and tr = "[]"
        and query = ?q and e = AttributeError and matches = "[]" and sp_res = "PList []",
        THEN conjunct2, THEN conjunct2, THEN conjunct2, THEN conjunct2, THEN conjunct2,
        THEN conjunct1]
    by (simp add: odd_spotify_def sp_album_def bind_exn_def)
  have h1: "services_raise_Exception failing_services"
    by (simp add: services_raise_Exception_def failing_services_def only_Exception_def)
  have h2: "client_raises_Exception (Some failing_spotify)"
    by (simp add: client_raises_Exception_def failing_spotify_def only_Exception_def)
  have c7: "\<exists>results tr'.
        lookup_metadata failing_services (Some failing_spotify) demo_lines [] = (Inr results, tr')"
    using provider_exceptions_are_caught [where svc = failing_services
        and spotify_client = "Some failing_spotify" and lines = demo_lines and tr = "[]",
        THEN conjunct2, THEN conjunct2, THEN conjunct2, THEN conjunct2, THEN conjunct2,
        THEN conjunct2] h1 h2
    by blast
  show ?thesis by (intro conjI c1 c2 c3 c4 c5 c6 c7)
qed

section \<open>The matches of an entry\<close>

lemma entry_matches_shape:
  "entry_matches svc sp q tr = []
   \<or> (\<exists>a t i c. entry_matches svc sp q tr = [mb_match a t i c])
   \<or> (\<exists>a t i c. entry_matches svc sp q tr = [sp_match a t i c])
   \<or> (\<exists>a t i c a' t' i' c'. entry_matches svc sp q tr = [mb_match a t i c, sp_match a' t' i' c'])"
  using musicbrainz_appended_shape [of svc q tr]
    spotify_appended_shape [of sp q "snd (musicbrainz_lookup svc q tr)"]
  unfolding entry_matches_def by (elim disjE exE) (simp_all, blast+)

lemma entry_matches_sources:
  "map match_source (entry_matches svc sp q tr) = []
   \<or> map match_source (entry_matches svc sp q tr) = [Inr (PStr (py ''MusicBrainz''))]
   \<or> map match_source (entry_matches svc sp q tr) = [Inr (PStr (py ''Spotify''))]
   \<or> map match_source (entry_matches svc sp q tr)
        = [Inr (PStr (py ''MusicBrainz'')), Inr (PStr (py ''Spotify''))]"
  using entry_matches_shape [of svc sp q tr]
  by (elim disjE exE) (simp_all add: match_source_simps)

lemma sources_bounds:
  assumes "ss = [] \<or> ss = [Inr (PStr (py ''MusicBrainz''))] \<or> ss = [Inr (PStr (py ''Spotify''))]
    \<or> ss = [Inr (PStr (py ''MusicBrainz'')), Inr (PStr (py ''Spotify''))]"
  shows "length ss \<le> 2 \<and> distinct (ss :: (exn + pyval) list)"
  using assms by (elim disjE) (simp_all add: py_eq_iff)

lemma lookup_metadata_results_set:
  assumes "services_raise_Exception svc" and "client_raises_Exception sp"
  shows "\<exists>results tr'. lookup_metadata svc sp lines tr = (Inr results, tr')
    \<and> (\<forall>entry\<in>set results. \<exists>q t. entry = result_entry q (entry_matches svc sp q t))"
proof -
  from lookup_metadata_entries [OF assms, of lines tr] obtain tr' where
    "lookup_metadata svc sp lines tr =
       (Inr (map (\<lambda>i. result_entry (lines ! i)
                  (entry_matches svc sp (lines ! i) (history_before svc sp lines tr i)))
            [0..<length lines]), tr')"
    by blast
  then show ?thesis by (intro exI conjI, assumption) auto
qed

text \<open>
  Claim C3. When the providers raise only instances of \<^verbatim>\<open>Exception\<close>, every entry of the
  result has under \<^verbatim>\<open>matches\<close> a list of at most two matches (the number of adapters),
  with no two matches of the same \<^verbatim>\<open>source\<close>; the sources are none, MusicBrainz alone,
  Spotify alone, or MusicBrainz followed by Spotify.
\<close>

theorem matches_one_per_source_in_adapter_order:
  assumes "services_raise_Exception svc" and "client_raises_Exception spotify_client"
  shows "\<exists>results tr'.
    lookup_metadata svc spotify_client lines tr = (Inr results, tr')
    \<and> (\<forall>entry\<in>set results. \<exists>matches.
          py_getitem_str entry (py ''matches'') = Inr (PList matches)
          \<and> length matches \<le> 2
          \<and> distinct (map match_source matches)
          \<and> (map match_source matches = []
             \<or> map match_source matches = [Inr (PStr (py ''MusicBrainz''))]
             \<or> map match_source matches = [Inr (PStr (py ''Spotify''))]
             \<or> map match_source matches
                 = [Inr (PStr (py ''MusicBrainz'')), Inr (PStr (py ''Spotify''))]))"
proof -
  from lookup_metadata_results_set [OF assms, of lines tr] obtain results tr' where
    L: "lookup_metadata svc spotify_client lines tr = (Inr results, tr')"
    and E: "\<forall>entry\<in>set results. \<exists>q t. entry = result_entry q (entry_matches svc spotify_client q t)"
    by blast
  have "\<exists>matches.
          py_getitem_str entry (py ''matches'') = Inr (PList matches)
          \<and> length matches \<le> 2
          \<and> distinct (map match_source matches)
          \<and> (map match_source matches = []
             \<or> map match_source matches = [Inr (PStr (py ''MusicBrainz''))]
             \<or> map match_source matches = [Inr (PStr (py ''Spotify''))]
             \<or> map match_source matches
                 = [Inr (PStr (py ''MusicBrainz'')), Inr (PStr (py ''Spotify''))])"
    if "entry \<in> set results" for entry
  proof -
    from E that obtain q t where e: "entry = result_entry q (entry_matches svc spotify_client q t)"
      by blast
    let ?ms = "entry_matches svc spotify_client q t"
    note s = entry_matches_sources [of svc spotify_client q t]
    from sources_bounds [OF s] have "length (map match_source ?ms) \<le> 2"
      and d: "distinct (map match_source ?ms)"
      by simp_all
    then have l: "length ?ms \<le> 2" by simp
    have g: "py_getitem_str entry (py ''matches'') = Inr (PList ?ms)"
      by (simp add: e result_entry_items)
    show ?thesis by (rule exI [of _ ?ms]) (intro conjI g l d s)
  qed
  with L show ?thesis by blast
qed

theorem matches_one_per_source_in_adapter_order_witness:
  "services_raise_Exception demo_services
   \<and> client_raises_Exception (Some demo_spotify)
   \<and> (\<exists>results tr' matches.
        lookup_metadata demo_services (Some demo_spotify) demo_lines [] = (Inr results, tr')
        \<and> py_getitem_str (results ! 0) (py ''matches'') = Inr (PList matches)
        \<and> length matches \<le> 2
        \<and> distinct (map match_source matches)
        \<and> map match_source matches
            = [Inr (PStr (py ''MusicBrainz'')), Inr (PStr (py ''Spotify''))])"
proof -
  note h = demo_services_raise_Exception demo_spotify_raises_Exception
  from matches_one_per_source_in_adapter_order [OF h, of demo_lines "[]"]
  obtain results tr' where
    L: "lookup_metadata demo_services (Some demo_spotify) demo_lines [] = (Inr results, tr')"
    and B: "\<forall>entry\<in>set results. \<exists>matches.
          py_getitem_str entry (py ''matches'') = Inr (PList matches)
          \<and> length matches \<le> 2
          \<and> distinct (map match_source matches)
          \<and> (map match_source matches = []
             \<or> map match_source matches = [Inr (PStr (py ''MusicBrainz''))]
             \<or> map match_source matches = [Inr (PStr (py ''Spotify''))]
             \<or> map match_source matches
                 = [Inr (PStr (py ''MusicBrainz'')), Inr (PStr (py ''Spotify''))])"
    by blast
  let ?ms = "[mb_match (PStr (py ''The Beatles'')) (PStr (py ''Abbey Road''))
                (PStr (py ''mbid-1'')) (PStr (py ''http://c/1'')),
              sp_match (PStr (py ''The Beatles'')) (PStr (py ''Abbey Road''))
                (PStr (py ''sp-1'')) PNone]"
  from L have r: "results = [result_entry (py ''Abbey Road'') ?ms,
      result_entry (py ''??garbled??'') []]"
    by (simp add: demo_lookup_metadata)
  then have "results ! 0 \<in> set results" by simp
  with B obtain matches where
    g: "py_getitem_str (results ! 0) (py ''matches'') = Inr (PList matches)"
    and l: "length matches \<le> 2" and d: "distinct (map match_source matches)"
    by blast
  from g r have "matches = ?ms" by (simp add: result_entry_items)
  then have s: "map match_source matches
            = [Inr (PStr (py ''MusicBrainz'')), Inr (PStr (py ''Spotify''))]"
    by (simp add: match_source_simps)
  show ?thesis
    by (intro conjI h exI [of _ results] exI [of _ tr'] exI [of _ matches] L g l d s)
qed

section \<open>The keys of a match\<close>

lemma mb_cover_url_no_images:
  "py_get art_json (py ''images'') PNone = Inr images \<Longrightarrow> \<not> truthy images \<Longrightarrow>
   mb_cover_url art_json = Inr PNone"
  by (simp add: mb_cover_url_def bind_exn_def)

lemma musicbrainz_block_no_cover:
  "search_releases svc tr query = Inr mb \<Longrightarrow> mb_release mb = Inr (Some (mbid, artist, title)) \<Longrightarrow>
   coverart_get_json svc (tr @ [SearchReleases query]) mbid = Inr art_json \<Longrightarrow>
   py_get art_json (py ''images'') PNone = Inr images \<Longrightarrow> \<not> truthy images \<Longrightarrow>
   musicbrainz_block svc query matches tr =
     (Inr (matches @ [mb_match artist title mbid PNone]),
      tr @ [SearchReleases query, CoverArtGet mbid])"
  by (simp add: musicbrainz_block_def musicbrainz_lookup_def except_Exception_pass_def
      mb_cover_url_no_images)

lemma sp_album_no_cover:
  assumes "py_get sp_res (py ''albums'') (PDict []) = Inr albums"
    and "py_get albums (py ''items'') (PList []) = Inr items"
    and "py_getitem_0 items = Inr alb"
    and "py_getitem_str alb (py ''images'') = Inr images"
    and "\<not> truthy images"
    and "sp_album sp_res = Inr (Some m)"
  shows "py_getitem_str m (py ''cover_art_url'') = Inr PNone"
proof -
  from assms(6) have "truthy items"
    unfolding sp_album_def using assms(1,2) by (auto simp: bind_exn_def split: if_splits)
  with assms obtain a t i where "m = sp_match a t i PNone"
    unfolding sp_album_def by (auto simp: bind_exn_def split: sum.splits)
  then show ?thesis by (simp add: sp_match_def py_eq_iff)
qed

lemma entry_matches_members:
  assumes "m \<in> set (entry_matches svc sp q tr)"
  shows "(\<exists>a t i c. m = mb_match a t i c) \<or> (\<exists>a t i c. m = sp_match a t i c)"
  using entry_matches_shape [of svc sp q tr] assms
  by (elim disjE exE) (simp_all, blast+)

text \<open>
  Claim C10. When the providers raise only instances of \<^verbatim>\<open>Exception\<close>, every match of
  every entry of the result is a dictionary with the keys \<^verbatim>\<open>source\<close>, \<^verbatim>\<open>artist\<close>,
  \<^verbatim>\<open>title\<close>, its identifier key (\<^verbatim>\<open>mbid\<close> with the source MusicBrainz, \<^verbatim>\<open>spotify_id\<close>
  with the source Spotify) and \<^verbatim>\<open>cover_art_url\<close>. When the cover art archive's answer
  has no images, the MusicBrainz match is appended with \<^verbatim>\<open>None\<close> under \<^verbatim>\<open>cover_art_url\<close>;
  when the Spotify album has no images, the Spotify match has \<^verbatim>\<open>None\<close> under that key.
\<close>

theorem match_keys_always_present:
  "(services_raise_Exception svc \<and> client_raises_Exception spotify_client \<longrightarrow>
      (\<exists>results tr'.
         lookup_metadata svc spotify_client lines tr = (Inr results, tr')
         \<and> (\<forall>entry\<in>set results. \<exists>matches.
               py_getitem_str entry (py ''matches'') = Inr (PList matches)
               \<and> (\<forall>m\<in>set matches.
                    (\<exists>artist title mbid cover_url.
                       m = PDict [(py ''source'', PStr (py ''MusicBrainz'')),
                                  (py ''artist'', artist),
                                  (py ''title'', title),
                                  (py ''mbid'', mbid),
                                  (py ''cover_art_url'', cover_url)])
                  \<or> (\<exists>artist title spotify_id cover_url.
                       m = PDict [(py ''source'', PStr (py ''Spotify'')),
                                  (py ''artist'', artist),
                                  (py ''title'', title),
                                  (py ''spotify_id'', spotify_id),
                                  (py ''cover_art_url'', cover_url)])))))
   \<and> (search_releases svc tr query = Inr mb
       \<and> mb_release mb = Inr (Some (mbid, artist, title))
       \<and> coverart_get_json svc (tr @ [SearchReleases query]) mbid = Inr art_json
       \<and> py_get art_json (py ''images'') PNone = Inr images \<and> \<not> truthy images
      \<longrightarrow> musicbrainz_block svc query matches tr =
            (Inr (matches @ [PDict [(py ''source'', PStr (py ''MusicBrainz'')),
                                    (py ''artist'', artist),
                                    (py ''title'', title),
                                    (py ''mbid'', mbid),
                                    (py ''cover_art_url'', PNone)]]),
             tr @ [SearchReleases query, CoverArtGet mbid]))
   \<and> (py_get sp_res (py ''albums'') (PDict []) = Inr albums
       \<and> py_get albums (py ''items'') (PList []) = Inr items
       \<and> py_getitem_0 items = Inr alb
       \<and> py_getitem_str alb (py ''images'') = Inr alb_images \<and> \<not> truthy alb_images
       \<and> sp_album sp_res = Inr (Some m)
      \<longrightarrow> py_getitem_str m (py ''cover_art_url'') = Inr PNone)"
proof (intro conjI impI)
  assume "services_raise_Exception svc \<and> client_raises_Exception spotify_client"
  then have h: "services_raise_Exception svc" "client_raises_Exception spotify_client"
    by simp_all
  from lookup_metadata_results_set [OF h, of lines tr] obtain results tr' where
    L: "lookup_metadata svc spotify_client lines tr = (Inr results, tr')"
    and E: "\<forall>entry\<in>set results. \<exists>q t. entry = result_entry q (entry_matches svc spotify_client q t)"
    by blast
  let ?K = "\<lambda>m. (\<exists>artist title mbid cover_url.
                       m = PDict [(py ''source'', PStr (py ''MusicBrainz'')),
                                  (py ''artist'', artist),
                                  (py ''title'', title),
                                  (py ''mbid'', mbid),
                                  (py ''cover_art_url'', cover_url)])
                  \<or> (\<exists>artist title spotify_id cover_url.
                       m = PDict [(py ''source'', PStr (py ''Spotify'')),
                                  (py ''artist'', artist),
                                  (py ''title'', title),
                                  (py ''spotify_id'', spotify_id),
                                  (py ''cover_art_url'', cover_url)])"
  have "\<exists>matches. py_getitem_str entry (py ''matches'') = Inr (PList matches)
      \<and> (\<forall>m\<in>set matches. ?K m)"
    if "entry \<in> set results" for entry
  proof -
    from E that obtain q t where e: "entry = result_entry q (entry_matches svc spotify_client q t)"
      by blast
    let ?ms = "entry_matches svc spotify_client q t"
    have g: "py_getitem_str entry (py ''matches'') = Inr (PList ?ms)"
      by (simp add: e result_entry_items)
    have k: "\<forall>m\<in>set ?ms. ?K m"
    proof
      fix m assume "m \<in> set ?ms"
      from entry_matches_members [OF this] show "?K m"
        unfolding mb_match_def sp_match_def .
    qed
    show ?thesis by (rule exI [of _ ?ms]) (intro conjI g k)
  qed
  then have "\<forall>entry\<in>set results. \<exists>matches.
      py_getitem_str entry (py ''matches'') = Inr (PList matches) \<and> (\<forall>m\<in>set matches. ?K m)"
    by (rule ballI)
  with L show "\<exists>results tr'.
         lookup_metadata svc spotify_client lines tr = (Inr results, tr')
         \<and> (\<forall>entry\<in>set results. \<exists>matches.
               py_getitem_str entry (py ''matches'') = Inr (PList matches)
               \<and> (\<forall>m\<in>set matches. ?K m))"
    by (intro exI conjI)
next
  assume "search_releases svc tr query = Inr mb
       \<and> mb_release mb = Inr (Some (mbid, artist, title))
       \<and> coverart_get_json svc (tr @ [SearchReleases query]) mbid = Inr art_json
       \<and> py_get art_json (py ''images'') PNone = Inr images \<and> \<not> truthy images"
  then show "musicbrainz_block svc query matches tr =
            (Inr (matches @ [PDict [(py ''source'', PStr (py ''MusicBrainz'')),
                                    (py ''artist'', artist),
                                    (py ''title'', title),
                                    (py ''mbid'', mbid),
                                    (py ''cover_art_url'', PNone)]]),
             tr @ [SearchReleases query, CoverArtGet mbid])"
    using musicbrainz_block_no_cover [of svc tr query mb mbid artist title art_json images matches]
    by (simp add: mb_match_def)
next
  assume "py_get sp_res (py ''albums'') (PDict []) = Inr albums
       \<and> py_get albums (py ''items'') (PList []) = Inr items
       \<and> py_getitem_0 items = Inr alb
       \<and> py_getitem_str alb (py ''images'') = Inr alb_images \<and> \<not> truthy alb_images
       \<and> sp_album sp_res = Inr (Some m)"
  then show "py_getitem_str m (py ''cover_art_url'') = Inr PNone"
    using sp_album_no_cover [of sp_res albums items alb alb_images m] by blast
qed

theorem match_keys_always_present_witness:
  "services_raise_Exception demo_services
   \<and> client_raises_Exception (Some demo_spotify)
   \<and> (\<exists>results tr' matches.
        lookup_metadata demo_services (Some demo_spotify) demo_lines [] = (Inr results, tr')
        \<and> py_getitem_str (results ! 0) (py ''matches'') = Inr (PList matches)
        \<and> ((\<exists>artist title mbid cover_url.
               matches ! 1 = PDict [(py ''source'', PStr (py ''MusicBrainz'')),
                                    (py ''artist'', artist),
                                    (py ''title'', title),
                                    (py ''mbid'', mbid),
                                    (py ''cover_art_url'', cover_url)])
           \<or> (\<exists>artist title spotify_id cover_url.
               matches ! 1 = PDict [(py ''source'', PStr (py ''Spotify'')),
                                    (py ''artist'', artist),
                                    (py ''title'', title),
                                    (py ''spotify_id'', spotify_id),
                                    (py ''cover_art_url'', cover_url)])))
   \<and> musicbrainz_block (demo_services \<lparr> coverart_get_json := (\<lambda>tr mbid. Inr (PDict [])) \<rparr>)
        (py ''Abbey Road'') [] []
      = (Inr [PDict [(py ''source'', PStr (py ''MusicBrainz'')),
                     (py ''artist'', PStr (py ''The Beatles'')),
                     (py ''title'', PStr (py ''Abbey Road'')),
                     (py ''mbid'', PStr (py ''mbid-1'')),
                     (py ''cover_art_url'', PNone)]],
         [SearchReleases (py ''Abbey Road''), CoverArtGet (PStr (py ''mbid-1''))])
   \<and> py_getitem_str
        (sp_match (PStr (py ''The Beatles'')) (PStr (py ''Abbey Road'')) (PStr (py ''sp-1'')) PNone)
        (py ''cover_art_url'') = Inr PNone"
proof -
  note h = demo_services_raise_Exception demo_spotify_raises_Exception
  let ?K = "\<lambda>m. (\<exists>artist title mbid cover_url.
                       m = PDict [(py ''source'', PStr (py ''MusicBrainz'')),
                                  (py ''artist'', artist),
                                  (py ''title'', title),
                                  (py ''mbid'', mbid),
                                  (py ''cover_art_url'', cover_url)])
                  \<or> (\<exists>artist title spotify_id cover_url.
                       m = PDict [(py ''source'', PStr (py ''Spotify'')),
                                  (py ''artist'', artist),
                                  (py ''title'', title),
                                  (py ''spotify_id'', spotify_id),
                                  (py ''cover_art_url'', cover_url)])"
  from match_keys_always_present [where svc = demo_services
      and spotify_client = "Some demo_spotify" and lines = demo_lines and tr = "[]",
      THEN conjunct1] h
  obtain results tr' where
    L: "lookup_metadata demo_services (Some demo_spotify) demo_lines [] = (Inr results, tr')"
    and B: "\<forall>entry\<in>set results. \<exists>matches.
               py_getitem_str entry (py ''matches'') = Inr (PList matches)
               \<and> (\<forall>m\<in>set matches. ?K m)"
    by blast
  let ?ms = "[mb_match (PStr (py ''The Beatles'')) (PStr (py ''Abbey Road''))
                (PStr (py ''mbid-1'')) (PStr (py ''http://c/1'')),
              sp_match (PStr (py ''The Beatles'')) (PStr (py ''Abbey Road''))
                (PStr (py ''sp-1'')) PNone]"
  from L have r: "results = [result_entry (py ''Abbey Road'') ?ms,
      result_entry (py ''??garbled??'') []]"
    by (simp add: demo_lookup_metadata)
  then have "results ! 0 \<in> set results" by simp
  with B obtain matches where
    g: "py_getitem_str (results ! 0) (py ''matches'') = Inr (PList matches)"
    and k: "\<forall>m\<in>set matches. ?K m"
    by blast
  from g r have "matches = ?ms" by (simp add: result_entry_items)
  then have "matches ! 1 \<in> set matches" by simp
  with k have k1: "?K (matches ! 1)" by (rule bspec)
  let ?svc = "demo_services \<lparr> coverart_get_json := (\<lambda>tr mbid. Inr (PDict [])) \<rparr>"
  have a: "musicbrainz_block ?svc (py ''Abbey Road'') [] []
      = (Inr [PDict [(py ''source'', PStr (py ''MusicBrainz'')),
                     (py ''artist'', PStr (py ''The Beatles'')),
                     (py ''title'', PStr (py ''Abbey Road'')),
                     (py ''mbid'', PStr (py ''mbid-1'')),
                     (py ''cover_art_url'', PNone)]],
         [SearchReleases (py ''Abbey Road''), CoverArtGet (PStr (py ''mbid-1''))])"
    using match_keys_always_present [where svc = ?svc and tr = "[]"
        and query = "py ''Abbey Road''" and matches = "[]"
        and mb = "PDict [(py ''release-list'', PList [demo_release])]"
        and mbid = "PStr (py ''mbid-1'')" and artist = "PStr (py ''The Beatles'')"
        and title = "PStr (py ''Abbey Road'')" and art_json = "PDict []" and images = PNone,
        THEN conjunct2, THEN conjunct1]
    by (simp add: demo_services_def demo_mb_release)
  have b: "py_getitem_str
        (sp_match (PStr (py ''The Beatles'')) (PStr (py ''Abbey Road'')) (PStr (py ''sp-1'')) PNone)
        (py ''cover_art_url'') = Inr PNone"
    using match_keys_always_present [where
        sp_res = "PDict [(py ''albums'', PDict [(py ''items'', PList [demo_album])])]"
        and albums = "PDict [(py ''items'', PList [demo_album])]"
        and items = "PList [demo_album]" and alb = demo_album and alb_images = "PList []"
        and m = "sp_match (PStr (py ''The Beatles'')) (PStr (py ''Abbey Road''))
                   (PStr (py ''sp-1'')) PNone",
        THEN conjunct2, THEN conjunct2]
    by (simp add: demo_sp_album) (simp add: demo_album_def py_eq_iff)
  show ?thesis
    by (intro conjI h exI [of _ results] exI [of _ tr'] exI [of _ matches] L g k1 a b)
qed

section \<open>The history of a run without a Spotify client\<close>

lemma snd_except_Exception_pass: "snd (except_Exception_pass ms body) = snd body"
  by (cases body) (simp add: except_Exception_pass_def split: sum.splits option.splits)

lemma musicbrainz_lookup_history:
  "\<exists>calls. snd (musicbrainz_lookup svc q tr) = tr @ calls
     \<and> list_all (\<lambda>c. \<not> is_spotify_call c) calls"
proof -
  have "snd (musicbrainz_lookup svc q tr) = tr @ [SearchReleases q]
    \<or> (\<exists>mbid. snd (musicbrainz_lookup svc q tr) = tr @ [SearchReleases q, CoverArtGet mbid])"
    by (auto simp: musicbrainz_lookup_def Let_def split: sum.splits option.splits prod.splits)
  then show ?thesis
  proof (elim disjE exE)
    assume a: "snd (musicbrainz_lookup svc q tr) = tr @ [SearchReleases q]"
    show ?thesis by (rule exI [of _ "[SearchReleases q]"]) (simp add: a)
  next
    fix mbid
    assume a: "snd (musicbrainz_lookup svc q tr) = tr @ [SearchReleases q, CoverArtGet mbid]"
    show ?thesis by (rule exI [of _ "[SearchReleases q, CoverArtGet mbid]"]) (simp add: a)
  qed
qed

lemma lookup_entry_None_history:
  "snd (lookup_entry svc None q tr) = snd (musicbrainz_lookup svc q tr)"
proof -
  obtain r t where B: "musicbrainz_block svc q [] tr = (r, t)"
    by (cases "musicbrainz_block svc q [] tr")
  then have "t = snd (musicbrainz_lookup svc q tr)"
    using snd_except_Exception_pass [of "[]" "musicbrainz_lookup svc q tr"]
    by (simp add: musicbrainz_block_def)
  with B show ?thesis
    by (cases r) (simp_all add: lookup_entry_def spotify_block_def)
qed

lemma lookup_loop_None_history:
  "\<exists>calls. snd (lookup_loop svc None lines results tr) = tr @ calls
     \<and> list_all (\<lambda>c. \<not> is_spotify_call c) calls"
proof (induction lines arbitrary: results tr)
  case Nil
  show ?case by simp
next
  case (Cons q lines)
  obtain r t where E: "lookup_entry svc None q tr = (r, t)"
    by (cases "lookup_entry svc None q tr")
  with lookup_entry_None_history [of svc q tr] musicbrainz_lookup_history [of svc q tr]
  obtain c1 where t: "t = tr @ c1" and c1: "list_all (\<lambda>c. \<not> is_spotify_call c) c1"
    by auto
  show ?case
  proof (cases r)
    case (Inl e)
    with E t c1 show ?thesis by auto
  next
    case (Inr entry)
    from Cons.IH [of "results @ [entry]" t] obtain c2 where
      "snd (lookup_loop svc None lines (results @ [entry]) t) = t @ c2"
      and "list_all (\<lambda>c. \<not> is_spotify_call c) c2"
      by blast
    with E Inr t c1 have "snd (lookup_loop svc None (q # lines) results tr) = tr @ (c1 @ c2)
      \<and> list_all (\<lambda>c. \<not> is_spotify_call c) (c1 @ c2)"
      by simp
    then show ?thesis by blast
  qed
qed

lemma client_raises_Exception_None: "client_raises_Exception None"
  by (simp add: client_raises_Exception_def)

lemma entry_matches_None:
  "entry_matches svc None q tr = musicbrainz_appended svc q tr"
  by (simp add: entry_matches_def spotify_appended_def)

lemma musicbrainz_appended_sources:
  "m \<in> set (musicbrainz_appended svc q tr) \<Longrightarrow> match_source m = Inr (PStr (py ''MusicBrainz''))"
  using musicbrainz_appended_shape [of svc q tr]
  by (elim disjE exE) (simp_all add: match_source_simps)

text \<open>
  Claim C7. With no Spotify client (\<^verbatim>\<open>spotify_client\<close> is \<^verbatim>\<open>None\<close>) a run makes no
  Spotify search call for any query: the calls it adds to the history are all other
  calls. When MusicBrainz and the cover art archive raise only instances of
  \<^verbatim>\<open>Exception\<close>, the run returns its result list and no match of any entry has the source
  Spotify.
\<close>

theorem no_spotify_client_no_spotify_call:
  "(\<exists>calls. snd (lookup_metadata svc None lines tr) = tr @ calls
       \<and> (\<forall>c\<in>set calls. \<not> is_spotify_call c))
   \<and> (services_raise_Exception svc \<longrightarrow>
        (\<exists>results tr'.
           lookup_metadata svc None lines tr = (Inr results, tr')
           \<and> (\<forall>entry\<in>set results. \<exists>matches.
                 py_getitem_str entry (py ''matches'') = Inr (PList matches)
                 \<and> (\<forall>m\<in>set matches. match_source m \<noteq> Inr (PStr (py ''Spotify''))))))"
proof (intro conjI impI)
  from lookup_loop_None_history [of svc lines "[]" tr]
  show "\<exists>calls. snd (lookup_metadata svc None lines tr) = tr @ calls
       \<and> (\<forall>c\<in>set calls. \<not> is_spotify_call c)"
    unfolding lookup_metadata_def list_all_iff .
next
  assume h: "services_raise_Exception svc"
  from lookup_metadata_results_set [OF h client_raises_Exception_None, of lines tr]
  obtain results tr' where
    L: "lookup_metadata svc None lines tr = (Inr results, tr')"
    and E: "\<forall>entry\<in>set results. \<exists>q t. entry = result_entry q (entry_matches svc None q t)"
    by blast
  have "\<exists>matches. py_getitem_str entry (py ''matches'') = Inr (PList matches)
      \<and> (\<forall>m\<in>set matches. match_source m \<noteq> Inr (PStr (py ''Spotify'')))"
    if "entry \<in> set results" for entry
  proof -
    from E that obtain q t where e: "entry = result_entry q (musicbrainz_appended svc q t)"
      unfolding entry_matches_None by blast
    let ?ms = "musicbrainz_appended svc q t"
    have g: "py_getitem_str entry (py ''matches'') = Inr (PList ?ms)"
      by (simp add: e result_entry_items)
    have k: "\<forall>m\<in>set ?ms. match_source m \<noteq> Inr (PStr (py ''Spotify''))"
    proof
      fix m assume "m \<in> set ?ms"
      from musicbrainz_appended_sources [OF this]
      show "match_source m \<noteq> Inr (PStr (py ''Spotify''))" by (simp add: py_eq_iff)
    qed
    show ?thesis by (rule exI [of _ ?ms]) (intro conjI g k)
  qed
  then have "\<forall>entry\<in>set results. \<exists>matches.
      py_getitem_str entry (py ''matches'') = Inr (PList matches)
      \<and> (\<forall>m\<in>set matches. match_source m \<noteq> Inr (PStr (py ''Spotify'')))"
    by (rule ballI)
  with L show "\<exists>results tr'.
           lookup_metadata svc None lines tr = (Inr results, tr')
           \<and> (\<forall>entry\<in>set results. \<exists>matches.
                 py_getitem_str entry (py ''matches'') = Inr (PList matches)
                 \<and> (\<forall>m\<in>set matches. match_source m \<noteq> Inr (PStr (py ''Spotify''))))"
    by (intro exI conjI)
qed

lemma demo_lookup_metadata_None:
  "lookup_metadata demo_services None demo_lines [] =
     (Inr [result_entry (py ''Abbey Road'')
             [mb_match (PStr (py ''The Beatles'')) (PStr (py ''Abbey Road''))
                (PStr (py ''mbid-1'')) (PStr (py ''http://c/1''))],
           result_entry (py ''??garbled??'') []],
      [SearchReleases (py ''Abbey Road''), CoverArtGet (PStr (py ''mbid-1'')),
       SearchReleases (py ''??garbled??'')])"
  by (simp add: lookup_metadata_def demo_lines_def lookup_entry_def musicbrainz_block_def
      spotify_block_def except_Exception_pass_def demo_musicbrainz_lookup)

theorem no_spotify_client_no_spotify_call_witness:
  "(\<exists>calls. snd (lookup_metadata demo_services None demo_lines []) = calls
       \<and> length calls = 3 \<and> \<not> is_spotify_call (calls ! 1))
   \<and> services_raise_Exception demo_services
   \<and> (\<exists>results tr' matches.
        lookup_metadata demo_services None demo_lines [] = (Inr results, tr')
        \<and> py_getitem_str (results ! 0) (py ''matches'') = Inr (PList matches)
        \<and> length matches = 1
        \<and> match_source (matches ! 0) \<noteq> Inr (PStr (py ''Spotify'')))"
proof -
  note T = no_spotify_client_no_spotify_call [of demo_services demo_lines "[]"]
  note h = demo_services_raise_Exception
  from T obtain calls where
    c: "snd (lookup_metadata demo_services None demo_lines []) = [] @ calls"
    and n: "\<forall>c\<in>set calls. \<not> is_spotify_call c"
    by blast
  from c have c': "snd (lookup_metadata demo_services None demo_lines []) = calls" by simp
  then have len: "length calls = 3" by (auto simp: demo_lookup_metadata_None)
  then have "calls ! 1 \<in> set calls" by simp
  with n have n1: "\<not> is_spotify_call (calls ! 1)" by (rule bspec)
  from T h obtain results tr' where
    L: "lookup_metadata demo_services None demo_lines [] = (Inr results, tr')"
    and B: "\<forall>entry\<in>set results. \<exists>matches.
                 py_getitem_str entry (py ''matches'') = Inr (PList matches)
                 \<and> (\<forall>m\<in>set matches. match_source m \<noteq> Inr (PStr (py ''Spotify'')))"
    by blast
  let ?ms = "[mb_match (PStr (py ''The Beatles'')) (PStr (py ''Abbey Road''))
                (PStr (py ''mbid-1'')) (PStr (py ''http://c/1''))]"
  from L have r: "results = [result_entry (py ''Abbey Road'') ?ms,
      result_entry (py ''??garbled??'') []]"
    by (simp add: demo_lookup_metadata_None)
  then have "results ! 0 \<in> set results" by simp
  with B obtain matches where
    g: "py_getitem_str (results ! 0) (py ''matches'') = Inr (PList matches)"
    and k: "\<forall>m\<in>set matches. match_source m \<noteq> Inr (PStr (py ''Spotify''))"
    by blast
  from g r have m: "matches = ?ms" by (simp add: result_entry_items)
  then have l1: "length matches = 1" by simp
  from m have "matches ! 0 \<in> set matches" by simp
  with k have k0: "match_source (matches ! 0) \<noteq> Inr (PStr (py ''Spotify''))" by (rule bspec)
  have first: "\<exists>calls. snd (lookup_metadata demo_services None demo_lines []) = calls
       \<and> length calls = 3 \<and> \<not> is_spotify_call (calls ! 1)"
    by (rule exI [of _ calls]) (intro conjI c' len n1)
  show ?thesis
    by (intro conjI first h exI [of _ results] exI [of _ tr'] exI [of _ matches] L g l1 k0)
qed

section \<open>Repeated runs against fixed responses\<close>

lemma fst_except_Exception_pass:
  "fst body = fst body' \<Longrightarrow>
   fst (except_Exception_pass ms body) = fst (except_Exception_pass ms body')"
  by (cases body; cases body')
     (simp add: except_Exception_pass_def split: sum.splits option.splits)

lemma musicbrainz_lookup_fixed:
  assumes "fixed_services svc"
  shows "fst (musicbrainz_lookup svc q tr1) = fst (musicbrainz_lookup svc q tr2)"
proof -
  from assms have s: "search_releases svc tr1 q = search_releases svc tr2 q"
    and c: "\<And>mbid. coverart_get_json svc (tr1 @ [SearchReleases q]) mbid
        = coverart_get_json svc (tr2 @ [SearchReleases q]) mbid"
    unfolding fixed_services_def by blast+
  show ?thesis
    by (simp add: musicbrainz_lookup_def Let_def s c split: sum.splits option.splits prod.splits)
qed

lemma spotify_lookup_fixed:
  assumes "fixed_client (Some client)"
  shows "fst (spotify_lookup client q tr1) = fst (spotify_lookup client q tr2)"
proof -
  from assms have s: "client tr1 q = client tr2 q"
    unfolding fixed_client_def by blast
  show ?thesis by (simp add: spotify_lookup_def Let_def s split: sum.splits)
qed

lemma musicbrainz_block_fixed:
  "fixed_services svc \<Longrightarrow>
   fst (musicbrainz_block svc q ms tr1) = fst (musicbrainz_block svc q ms tr2)"
  unfolding musicbrainz_block_def
  by (rule fst_except_Exception_pass) (rule musicbrainz_lookup_fixed)

lemma spotify_block_fixed:
  "fixed_client sp \<Longrightarrow> fst (spotify_block sp q ms tr1) = fst (spotify_block sp q ms tr2)"
proof (cases sp)
  case None
  then show ?thesis by (simp add: spotify_block_def)
next
  case (Some client)
  assume "fixed_client sp"
  with Some have "fixed_client (Some client)" by simp
  from fst_except_Exception_pass [OF spotify_lookup_fixed [OF this]] Some
  show ?thesis by (simp add: spotify_block_def)
qed

lemma lookup_entry_fixed:
  assumes "fixed_services svc" and "fixed_client sp"
  shows "fst (lookup_entry svc sp q tr1) = fst (lookup_entry svc sp q tr2)"
proof -
  obtain r1 t1 where B1: "musicbrainz_block svc q [] tr1 = (r1, t1)"
    by (cases "musicbrainz_block svc q [] tr1")
  obtain r2 t2 where B2: "musicbrainz_block svc q [] tr2 = (r2, t2)"
    by (cases "musicbrainz_block svc q [] tr2")
  from musicbrainz_block_fixed [OF assms(1), of q "[]" tr1 tr2] B1 B2 have r: "r2 = r1" by simp
  show ?thesis
  proof (cases r1)
    case (Inl e)
    with B1 B2 r show ?thesis by (simp add: lookup_entry_def)
  next
    case (Inr ms)
    obtain s1 u1 where S1: "spotify_block sp q ms t1 = (s1, u1)"
      by (cases "spotify_block sp q ms t1")
    obtain s2 u2 where S2: "spotify_block sp q ms t2 = (s2, u2)"
      by (cases "spotify_block sp q ms t2")
    from spotify_block_fixed [OF assms(2), of q ms t1 t2] S1 S2 have "s2 = s1" by simp
    with B1 B2 r Inr S1 S2 show ?thesis
      by (cases s1) (simp_all add: lookup_entry_def)
  qed
qed

lemma lookup_loop_fixed:
  assumes "fixed_services svc" and "fixed_client sp"
  shows "fst (lookup_loop svc sp lines results tr1) = fst (lookup_loop svc sp lines results tr2)"
proof (induction lines arbitrary: results tr1 tr2)
  case Nil
  show ?case by simp
next
  case (Cons q lines)
  obtain r1 t1 where E1: "lookup_entry svc sp q tr1 = (r1, t1)"
    by (cases "lookup_entry svc sp q tr1")
  obtain r2 t2 where E2: "lookup_entry svc sp q tr2 = (r2, t2)"
    by (cases "lookup_entry svc sp q tr2")
  from lookup_entry_fixed [OF assms, of q tr1 tr2] E1 E2 have r: "r2 = r1" by simp
  show ?case
  proof (cases r1)
    case (Inl e)
    with E1 E2 r show ?thesis by simp
  next
    case (Inr entry)
    with E1 E2 r Cons.IH [of "results @ [entry]" t1 t2] show ?thesis by simp
  qed
qed

text \<open>
  Claim C9. With fixed provider responses (the answer to a call does not depend on the
  calls made before), \<^verbatim>\<open>lookup_metadata\<close> gives the same result for the same queries
  from any two histories; in particular a second run, made after the first, gives the
  result of the first, equal in content and order.
\<close>

theorem lookup_metadata_deterministic:
  assumes "fixed_services svc" and "fixed_client spotify_client"
  shows "fst (lookup_metadata svc spotify_client lines tr1)
           = fst (lookup_metadata svc spotify_client lines tr2)
    \<and> fst (lookup_metadata svc spotify_client lines
              (snd (lookup_metadata svc spotify_client lines tr1)))
           = fst (lookup_metadata svc spotify_client lines tr1)"
  unfolding lookup_metadata_def
  by (intro conjI lookup_loop_fixed assms)

lemma demo_fixed: "fixed_services demo_services" "fixed_client (Some demo_spotify)"
  by (simp_all add: fixed_services_def fixed_client_def demo_services_def demo_spotify_def)

theorem lookup_metadata_deterministic_witness:
  "fixed_services demo_services
   \<and> fixed_client (Some demo_spotify)
   \<and> fst (lookup_metadata demo_services (Some demo_spotify) demo_lines
            (snd (lookup_metadata demo_services (Some demo_spotify) demo_lines [])))
       = fst (lookup_metadata demo_services (Some demo_spotify) demo_lines [])
   \<and> fst (lookup_metadata demo_services (Some demo_spotify) demo_lines
            [SpotifySearch (py ''Abbey Road'')])
       = Inr [result_entry (py ''Abbey Road'')
                [mb_match (PStr (py ''The Beatles'')) (PStr (py ''Abbey Road''))
                   (PStr (py ''mbid-1'')) (PStr (py ''http://c/1'')),
                 sp_match (PStr (py ''The Beatles'')) (PStr (py ''Abbey Road''))
                   (PStr (py ''sp-1'')) PNone],
              result_entry (py ''??garbled??'') []]"
proof -
  note T = lookup_metadata_deterministic [OF demo_fixed, of demo_lines]
  have a: "fst (lookup_metadata demo_services (Some demo_spotify) demo_lines
            (snd (lookup_metadata demo_services (Some demo_spotify) demo_lines [])))
       = fst (lookup_metadata demo_services (Some demo_spotify) demo_lines [])"
    by (rule T [THEN conjunct2])
  have "fst (lookup_metadata demo_services (Some demo_spotify) demo_lines
            [SpotifySearch (py ''Abbey Road'')])
       = fst (lookup_metadata demo_services (Some demo_spotify) demo_lines [])"
    by (rule T [THEN conjunct1])
  then have b: "fst (lookup_metadata demo_services (Some demo_spotify) demo_lines
            [SpotifySearch (py ''Abbey Road'')])
       = Inr [result_entry (py ''Abbey Road'')
                [mb_match (PStr (py ''The Beatles'')) (PStr (py ''Abbey Road''))
                   (PStr (py ''mbid-1'')) (PStr (py ''http://c/1'')),
                 sp_match (PStr (py ''The Beatles'')) (PStr (py ''Abbey Road''))
                   (PStr (py ''sp-1'')) PNone],
              result_entry (py ''??garbled??'') []]"
    by (simp add: demo_lookup_metadata)
  show ?thesis by (intro conjI demo_fixed a b)
qed

section \<open>One adapter that raises on every query\<close>



















section \<open>A result that omits a field\<close>

lemma mb_release_first_dict:
  assumes "map_of resp (py ''release-list'') = Some (PList (PDict r # others))"
    and "py_getitem_str (PDict r) (py ''artist-credit'') = Inr credit"
    and "py_getitem_0 credit = Inr credit0"
    and "py_getitem_str credit0 (py ''artist'') = Inr credit_artist"
    and "py_getitem_str credit_artist (py ''name'') = Inr artist"
  shows "mb_release (PDict resp) =
    Inr (Some (case map_of r (py ''id'') of Some v \<Rightarrow> v | None \<Rightarrow> PNone, artist,
               case map_of r (py ''title'') of Some v \<Rightarrow> v | None \<Rightarrow> PNone))"
  using assms by (simp add: mb_release_def bind_exn_def)

lemma musicbrainz_block_success:
  assumes "search_releases svc tr query = Inr (PDict resp)"
    and "map_of resp (py ''release-list'') = Some (PList (PDict r # others))"
    and "py_getitem_str (PDict r) (py ''artist-credit'') = Inr credit"
    and "py_getitem_0 credit = Inr credit0"
    and "py_getitem_str credit0 (py ''artist'') = Inr credit_artist"
    and "py_getitem_str credit_artist (py ''name'') = Inr artist"
    and "coverart_get_json svc (tr @ [SearchReleases query])
           (case map_of r (py ''id'') of Some v \<Rightarrow> v | None \<Rightarrow> PNone) = Inr art_json"
    and "mb_cover_url art_json = Inr cover_url"
  shows "musicbrainz_block svc query matches tr =
    (Inr (matches @
        [PDict [(py ''source'', PStr (py ''MusicBrainz'')),
                (py ''artist'', artist),
                (py ''title'', case map_of r (py ''title'') of Some v \<Rightarrow> v | None \<Rightarrow> PNone),
                (py ''mbid'', case map_of r (py ''id'') of Some v \<Rightarrow> v | None \<Rightarrow> PNone),
                (py ''cover_art_url'', cover_url)]]),
     tr @ [SearchReleases query,
           CoverArtGet (case map_of r (py ''id'') of Some v \<Rightarrow> v | None \<Rightarrow> PNone)])"
  using assms(1,7,8) mb_release_first_dict [OF assms(2-6)]
  by (simp add: musicbrainz_block_def musicbrainz_lookup_def except_Exception_pass_def
      mb_match_def)

lemma spotify_block_success:
  assumes "client tr query = Inr sp_res"
    and "py_get sp_res (py ''albums'') (PDict []) = Inr albums"
    and "py_get albums (py ''items'') (PList []) = Inr items"
    and "truthy items"
    and "py_getitem_0 items = Inr alb"
    and "py_getitem_str alb (py ''artists'') = Inr artists"
    and "py_getitem_0 artists = Inr artist0"
    and "py_getitem_str artist0 (py ''name'') = Inr artist"
    and "py_getitem_str alb (py ''name'') = Inr title"
    and "py_getitem_str alb (py ''images'') = Inr images"
    and "(\<not> truthy images \<and> cover_url = PNone)
       \<or> (truthy images \<and> (\<exists>img. py_getitem_0 images = Inr img
              \<and> py_getitem_str img (py ''url'') = Inr cover_url))"
    and "py_getitem_str alb (py ''id'') = Inr spotify_id"
  shows "spotify_block (Some client) query matches tr =
    (Inr (matches @
        [PDict [(py ''source'', PStr (py ''Spotify'')),
                (py ''artist'', artist),
                (py ''title'', title),
                (py ''spotify_id'', spotify_id),
                (py ''cover_art_url'', cover_url)]]),
     tr @ [SpotifySearch query])"
proof -
  have "sp_album sp_res = Inr (Some (sp_match artist title spotify_id cover_url))"
  proof (cases "truthy images")
    case True
    with assms(11) obtain img where "py_getitem_0 images = Inr img"
      and "py_getitem_str img (py ''url'') = Inr cover_url"
      by blast
    with True show ?thesis
      unfolding sp_album_def by (simp add: assms(2-10,12) bind_exn_def)
  next
    case False
    with assms(11) have "cover_url = PNone" by blast
    with False show ?thesis
      unfolding sp_album_def by (simp add: assms(2-10,12) bind_exn_def)
  qed
  with assms(1) show ?thesis
    by (simp add: spotify_block_def spotify_lookup_def except_Exception_pass_def sp_match_def)
qed

lemma musicbrainz_block_all_or_nothing:
  assumes "musicbrainz_block svc query matches tr = (Inr ms, tr')"
  shows "ms = matches \<or> (\<exists>a t i c. ms = matches @ [mb_match a t i c])"
proof (cases "musicbrainz_lookup svc query tr")
  case (Pair r t)
  with assms musicbrainz_lookup_match [of svc query tr _ t] show ?thesis
    by (cases r)
       (auto simp: musicbrainz_block_def except_Exception_pass_def
          split: option.splits if_splits)
qed

lemma spotify_block_all_or_nothing:
  assumes "spotify_block (Some client) query matches tr = (Inr ms, tr')"
  shows "ms = matches \<or> (\<exists>a t i c. ms = matches @ [sp_match a t i c])"
proof (cases "spotify_lookup client query tr")
  case (Pair r t)
  with assms spotify_lookup_match [of client query tr _ t] show ?thesis
    by (cases r)
       (auto simp: spotify_block_def except_Exception_pass_def
          split: option.splits if_splits)
qed

text \<open>
  Claim C6, as stated, fails: MusicBrainz returns a release with an identifier and a
  title and no artist credit, and the entry of the query has no match. Line 45 reads the
  artist by subscript, the missing key raises \<^verbatim>\<open>KeyError\<close>, and the block's
  \<^verbatim>\<open>except Exception\<close> turns it into no match.
\<close>

theorem missing_artist_gives_no_match:
  "search_releases no_artist_services [] (py ''Abbey Road'')
     = Inr (PDict [(py ''release-list'',
              PList [PDict [(py ''id'', PStr (py ''mbid-1'')),
                            (py ''title'', PStr (py ''Abbey Road''))]])])
   \<and> mb_release (PDict [(py ''release-list'',
              PList [PDict [(py ''id'', PStr (py ''mbid-1'')),
                            (py ''title'', PStr (py ''Abbey Road''))]])]) = Inl KeyError
   \<and> lookup_metadata no_artist_services None [py ''Abbey Road''] []
     = (Inr [PDict [(py ''query_text'', PStr (py ''Abbey Road'')), (py ''matches'', PList [])]],
        [SearchReleases (py ''Abbey Road'')])"
  by (simp add: no_artist_services_def no_artist_mb_release lookup_metadata_def lookup_entry_def
      musicbrainz_block_def musicbrainz_lookup_def except_Exception_pass_def spotify_block_def
      result_entry_def)

text \<open>
  Claim C6, amended. When the first result of the provider supplies the fields the adapter
  reads by subscript (MusicBrainz: the name of the artist of the first artist credit;
  Spotify: the name of the first artist, the album name, the images and the identifier)
  and the cover art step raises nothing, the block appends one match with the source and
  those fields; a MusicBrainz release that omits its identifier or its title still gives
  a match, with \<^verbatim>\<open>None\<close> under \<^verbatim>\<open>mbid\<close> or \<^verbatim>\<open>title\<close>. A block that returns has appended
  nothing or one complete record of five keys.
\<close>

theorem match_when_subscripted_fields_present:
  "(search_releases svc tr query = Inr (PDict resp)
     \<and> map_of resp (py ''release-list'') = Some (PList (PDict r # others))
     \<and> py_getitem_str (PDict r) (py ''artist-credit'') = Inr credit
     \<and> py_getitem_0 credit = Inr credit0
     \<and> py_getitem_str credit0 (py ''artist'') = Inr credit_artist
     \<and> py_getitem_str credit_artist (py ''name'') = Inr artist
     \<and> coverart_get_json svc (tr @ [SearchReleases query])
           (case map_of r (py ''id'') of Some v \<Rightarrow> v | None \<Rightarrow> PNone) = Inr art_json
     \<and> mb_cover_url art_json = Inr cover_url
    \<longrightarrow> musicbrainz_block svc query matches tr =
         (Inr (matches @
            [PDict [(py ''source'', PStr (py ''MusicBrainz'')),
                    (py ''artist'', artist),
                    (py ''title'', case map_of r (py ''title'') of Some v \<Rightarrow> v | None \<Rightarrow> PNone),
                    (py ''mbid'', case map_of r (py ''id'') of Some v \<Rightarrow> v | None \<Rightarrow> PNone),
                    (py ''cover_art_url'', cover_url)]]),
          tr @ [SearchReleases query,
                CoverArtGet (case map_of r (py ''id'') of Some v \<Rightarrow> v | None \<Rightarrow> PNone)]))
   \<and> (client tr query = Inr sp_res
     \<and> py_get sp_res (py ''albums'') (PDict []) = Inr albums
     \<and> py_get albums (py ''items'') (PList []) = Inr items
     \<and> truthy items
     \<and> py_getitem_0 items = Inr alb
     \<and> py_getitem_str alb (py ''artists'') = Inr artists
     \<and> py_getitem_0 artists = Inr artist0
     \<and> py_getitem_str artist0 (py ''name'') = Inr sp_artist
     \<and> py_getitem_str alb (py ''name'') = Inr sp_title
     \<and> py_getitem_str alb (py ''images'') = Inr images
     \<and> ((\<not> truthy images \<and> sp_cover_url = PNone)
        \<or> (truthy images \<and> (\<exists>img. py_getitem_0 images = Inr img
               \<and> py_getitem_str img (py ''url'') = Inr sp_cover_url)))
     \<and> py_getitem_str alb (py ''id'') = Inr spotify_id
    \<longrightarrow> spotify_block (Some client) query matches tr =
         (Inr (matches @
            [PDict [(py ''source'', PStr (py ''Spotify'')),
                    (py ''artist'', sp_artist),
                    (py ''title'', sp_title),
                    (py ''spotify_id'', spotify_id),
                    (py ''cover_art_url'', sp_cover_url)]]),
          tr @ [SpotifySearch query]))
   \<and> (musicbrainz_block svc query matches tr = (Inr ms, tr')
    \<longrightarrow> ms = matches
        \<or> (\<exists>a t i c. ms = matches @
              [PDict [(py ''source'', PStr (py ''MusicBrainz'')), (py ''artist'', a),
                      (py ''title'', t), (py ''mbid'', i), (py ''cover_art_url'', c)]]))
   \<and> (spotify_block (Some client) query matches tr = (Inr ms, tr')
    \<longrightarrow> ms = matches
        \<or> (\<exists>a t i c. ms = matches @
              [PDict [(py ''source'', PStr (py ''Spotify'')), (py ''artist'', a),
                      (py ''title'', t), (py ''spotify_id'', i), (py ''cover_art_url'', c)]]))"
proof (intro conjI impI)
  assume "search_releases svc tr query = Inr (PDict resp)
     \<and> map_of resp (py ''release-list'') = Some (PList (PDict r # others))
     \<and> py_getitem_str (PDict r) (py ''artist-credit'') = Inr credit
     \<and> py_getitem_0 credit = Inr credit0
     \<and> py_getitem_str credit0 (py ''artist'') = Inr credit_artist
     \<and> py_getitem_str credit_artist (py ''name'') = Inr artist
     \<and> coverart_get_json svc (tr @ [SearchReleases query])
           (case map_of r (py ''id'') of Some v \<Rightarrow> v | None \<Rightarrow> PNone) = Inr art_json
     \<and> mb_cover_url art_json = Inr cover_url"
  then show "musicbrainz_block svc query matches tr =
         (Inr (matches @
            [PDict [(py ''source'', PStr (py ''MusicBrainz'')),
                    (py ''artist'', artist),
                    (py ''title'', case map_of r (py ''title'') of Some v \<Rightarrow> v | None \<Rightarrow> PNone),
                    (py ''mbid'', case map_of r (py ''id'') of Some v \<Rightarrow> v | None \<Rightarrow> PNone),
                    (py ''cover_art_url'', cover_url)]]),
          tr @ [SearchReleases query,
                CoverArtGet (case map_of r (py ''id'') of Some v \<Rightarrow> v | None \<Rightarrow> PNone)])"
    by (elim conjE) (rule musicbrainz_block_success)
next
  assume "client tr query = Inr sp_res
     \<and> py_get sp_res (py ''albums'') (PDict []) = Inr albums
     \<and> py_get albums (py ''items'') (PList []) = Inr items
     \<and> truthy items
     \<and> py_getitem_0 items = Inr alb
     \<and> py_getitem_str alb (py ''artists'') = Inr artists
     \<and> py_getitem_0 artists = Inr artist0
     \<and> py_getitem_str artist0 (py ''name'') = Inr sp_artist
     \<and> py_getitem_str alb (py ''name'') = Inr sp_title
     \<and> py_getitem_str alb (py ''images'') = Inr images
     \<and> ((\<not> truthy images \<and> sp_cover_url = PNone)
        \<or> (truthy images \<and> (\<exists>img. py_getitem_0 images = Inr img
               \<and> py_getitem_str img (py ''url'') = Inr sp_cover_url)))
     \<and> py_getitem_str alb (py ''id'') = Inr spotify_id"
  then show "spotify_block (Some client) query matches tr =
         (Inr (matches @
            [PDict [(py ''source'', PStr (py ''Spotify'')),
                    (py ''artist'', sp_artist),
                    (py ''title'', sp_title),
                    (py ''spotify_id'', spotify_id),
                    (py ''cover_art_url'', sp_cover_url)]]),
          tr @ [SpotifySearch query])"
    by (elim conjE) (rule spotify_block_success)
next
  assume "musicbrainz_block svc query matches tr = (Inr ms, tr')"
  from musicbrainz_block_all_or_nothing [OF this]
  show "ms = matches
        \<or> (\<exists>a t i c. ms = matches @
              [PDict [(py ''source'', PStr (py ''MusicBrainz'')), (py ''artist'', a),
                      (py ''title'', t), (py ''mbid'', i), (py ''cover_art_url'', c)]])"
    unfolding mb_match_def .
next
  assume "spotify_block (Some client) query matches tr = (Inr ms, tr')"
  from spotify_block_all_or_nothing [OF this]
  show "ms = matches
        \<or> (\<exists>a t i c. ms = matches @
              [PDict [(py ''source'', PStr (py ''Spotify'')), (py ''artist'', a),
                      (py ''title'', t), (py ''spotify_id'', i), (py ''cover_art_url'', c)]])"
    unfolding sp_match_def .
qed

theorem match_when_subscripted_fields_present_witness:
  "musicbrainz_block untitled_services (py ''Abbey Road'') [] []
     = (Inr [PDict [(py ''source'', PStr (py ''MusicBrainz'')),
                    (py ''artist'', PStr (py ''The Beatles'')),
                    (py ''title'', PNone),
                    (py ''mbid'', PNone),
                    (py ''cover_art_url'', PStr (py ''http://c/1''))]],
        [SearchReleases (py ''Abbey Road''), CoverArtGet PNone])
   \<and> spotify_block (Some demo_spotify) (py ''Abbey Road'') [] []
     = (Inr [PDict [(py ''source'', PStr (py ''Spotify'')),
                    (py ''artist'', PStr (py ''The Beatles'')),
                    (py ''title'', PStr (py ''Abbey Road'')),
                    (py ''spotify_id'', PStr (py ''sp-1'')),
                    (py ''cover_art_url'', PNone)]],
        [SpotifySearch (py ''Abbey Road'')])
   \<and> (\<exists>ms tr'. musicbrainz_block demo_services (py ''??garbled??'') [] [] = (Inr ms, tr')
        \<and> (ms = []
           \<or> (\<exists>a t i c. ms = [] @
              [PDict [(py ''source'', PStr (py ''MusicBrainz'')), (py ''artist'', a),
                      (py ''title'', t), (py ''mbid'', i), (py ''cover_art_url'', c)]])))
   \<and> (\<exists>ms tr'. spotify_block (Some demo_spotify) (py ''??garbled??'') [] [] = (Inr ms, tr')
        \<and> (ms = []
           \<or> (\<exists>a t i c. ms = [] @
              [PDict [(py ''source'', PStr (py ''Spotify'')), (py ''artist'', a),
                      (py ''title'', t), (py ''spotify_id'', i), (py ''cover_art_url'', c)]])))"
proof -
  let ?q = "py ''Abbey Road''"
  let ?r = "[(py ''artist-credit'',
                PList [PDict [(py ''artist'', PDict [(py ''name'', PStr (py ''The Beatles''))])]])]"
  let ?art = "PDict [(py ''images'', PList [PDict [(py ''image'', PStr (py ''http://c/1''))]])]"
  have p1: "search_releases untitled_services [] ?q
       = Inr (PDict [(py ''release-list'', PList [PDict ?r])])
     \<and> map_of [(py ''release-list'', PList [PDict ?r])] (py ''release-list'')
         = Some (PList (PDict ?r # []))
     \<and> py_getitem_str (PDict ?r) (py ''artist-credit'')
         = Inr (PList [PDict [(py ''artist'', PDict [(py ''name'', PStr (py ''The Beatles''))])]])
     \<and> py_getitem_0 (PList [PDict [(py ''artist'', PDict [(py ''name'', PStr (py ''The Beatles''))])]])
         = Inr (PDict [(py ''artist'', PDict [(py ''name'', PStr (py ''The Beatles''))])])
     \<and> py_getitem_str (PDict [(py ''artist'', PDict [(py ''name'', PStr (py ''The Beatles''))])])
           (py ''artist'')
         = Inr (PDict [(py ''name'', PStr (py ''The Beatles''))])
     \<and> py_getitem_str (PDict [(py ''name'', PStr (py ''The Beatles''))]) (py ''name'')
         = Inr (PStr (py ''The Beatles''))
     \<and> coverart_get_json untitled_services ([] @ [SearchReleases ?q])
           (case map_of ?r (py ''id'') of Some v \<Rightarrow> v | None \<Rightarrow> PNone) = Inr ?art
     \<and> mb_cover_url ?art = Inr (PStr (py ''http://c/1''))"
    by (simp add: untitled_services_def demo_services_def demo_mb_cover_url py_eq_iff)
  note a0 = match_when_subscripted_fields_present [where svc = untitled_services and tr = "[]"
      and query = ?q and matches = "[]", THEN conjunct1, THEN mp, OF p1]
  have a: "musicbrainz_block untitled_services ?q [] []
     = (Inr [PDict [(py ''source'', PStr (py ''MusicBrainz'')),
                    (py ''artist'', PStr (py ''The Beatles'')),
                    (py ''title'', PNone),
                    (py ''mbid'', PNone),
                    (py ''cover_art_url'', PStr (py ''http://c/1''))]],
        [SearchReleases ?q, CoverArtGet PNone])"
    using a0 by (simp add: py_eq_iff)
  have p2: "demo_spotify [] ?q = Inr (PDict [(py ''albums'', PDict [(py ''items'', PList [demo_album])])])
     \<and> py_get (PDict [(py ''albums'', PDict [(py ''items'', PList [demo_album])])])
           (py ''albums'') (PDict []) = Inr (PDict [(py ''items'', PList [demo_album])])
     \<and> py_get (PDict [(py ''items'', PList [demo_album])]) (py ''items'') (PList [])
         = Inr (PList [demo_album])
     \<and> truthy (PList [demo_album])
     \<and> py_getitem_0 (PList [demo_album]) = Inr demo_album
     \<and> py_getitem_str demo_album (py ''artists'')
         = Inr (PList [PDict [(py ''name'', PStr (py ''The Beatles''))]])
     \<and> py_getitem_0 (PList [PDict [(py ''name'', PStr (py ''The Beatles''))]])
         = Inr (PDict [(py ''name'', PStr (py ''The Beatles''))])
     \<and> py_getitem_str (PDict [(py ''name'', PStr (py ''The Beatles''))]) (py ''name'')
         = Inr (PStr (py ''The Beatles''))
     \<and> py_getitem_str demo_album (py ''name'') = Inr (PStr (py ''Abbey Road''))
     \<and> py_getitem_str demo_album (py ''images'') = Inr (PList [])
     \<and> ((\<not> truthy (PList []) \<and> PNone = PNone)
        \<or> (truthy (PList []) \<and> (\<exists>img. py_getitem_0 (PList []) = Inr img
               \<and> py_getitem_str img (py ''url'') = Inr PNone)))
     \<and> py_getitem_str demo_album (py ''id'') = Inr (PStr (py ''sp-1''))"
    by (simp add: demo_spotify_def demo_album_def py_eq_iff)
  note b0 = match_when_subscripted_fields_present [where client = demo_spotify and tr = "[]"
      and query = ?q and matches = "[]", THEN conjunct2, THEN conjunct1, THEN mp, OF p2]
  have b: "spotify_block (Some demo_spotify) ?q [] []
     = (Inr [PDict [(py ''source'', PStr (py ''Spotify'')),
                    (py ''artist'', PStr (py ''The Beatles'')),
                    (py ''title'', PStr (py ''Abbey Road'')),
                    (py ''spotify_id'', PStr (py ''sp-1'')),
                    (py ''cover_art_url'', PNone)]],
        [SpotifySearch ?q])"
    using b0 by simp
  have p3: "musicbrainz_block demo_services (py ''??garbled??'') [] []
      = (Inr [], [SearchReleases (py ''??garbled??'')])"
    by (simp add: musicbrainz_block_def except_Exception_pass_def demo_musicbrainz_lookup)
  note c0 = match_when_subscripted_fields_present [where svc = demo_services and tr = "[]"
      and query = "py ''??garbled??''" and matches = "[]",
      THEN conjunct2, THEN conjunct2, THEN conjunct1, THEN mp, OF p3]
  have c: "\<exists>ms tr'. musicbrainz_block demo_services (py ''??garbled??'') [] [] = (Inr ms, tr')
        \<and> (ms = []
           \<or> (\<exists>a t i c. ms = [] @
              [PDict [(py ''source'', PStr (py ''MusicBrainz'')), (py ''artist'', a),
                      (py ''title'', t), (py ''mbid'', i), (py ''cover_art_url'', c)]]))"
    by (intro exI conjI) (rule p3, rule c0)
  have p4: "spotify_block (Some demo_spotify) (py ''??garbled??'') [] []
      = (Inr [], [SpotifySearch (py ''??garbled??'')])"
    by (simp add: spotify_block_def except_Exception_pass_def demo_spotify_lookup)
  note d0 = match_when_subscripted_fields_present [where client = demo_spotify and tr = "[]"
      and query = "py ''??garbled??''" and matches = "[]",
      THEN conjunct2, THEN conjunct2, THEN conjunct2, THEN mp, OF p4]
  have d: "\<exists>ms tr'. spotify_block (Some demo_spotify) (py ''??garbled??'') [] [] = (Inr ms, tr')
        \<and> (ms = []
           \<or> (\<exists>a t i c. ms = [] @
              [PDict [(py ''source'', PStr (py ''Spotify'')), (py ''artist'', a),
                      (py ''title'', t), (py ''spotify_id'', i), (py ''cover_art_url'', c)]]))"
    by (intro exI conjI) (rule p4, rule d0)
  show ?thesis by (intro conjI a b c d)
qed


section \<open>The dictionaries of a result\<close>

text \<open>
  Every dictionary that \<^verbatim>\<open>lookup_metadata\<close> builds has string keys that are pairwise
  distinct, as a JSON object needs them.
\<close>

lemma built_dicts_distinct_keys:
  "\<exists>d. result_entry q ms = PDict d \<and> distinct (map fst d)"
  "\<exists>d. mb_match a t i c = PDict d \<and> distinct (map fst d)"
  "\<exists>d. sp_match a t i c = PDict d \<and> distinct (map fst d)"
  by (simp_all add: result_entry_def mb_match_def sp_match_def py_eq_iff)

end
